theory Spec2Isabelle
  imports Main
begin

section \<open>The prover monitor (main.go): data\<close>

text \<open>
  The program polls four endpoints of a JSON HTTP API and republishes what it reads as
  Prometheus gauges through a Pushgateway. Its own code is control flow around library
  calls. The calls into libraries (net/http, encoding/json, strconv, fmt's \<open>%f\<close>,
  unicode/utf8) are parameters of the model: pure ones are fields of a record \<open>lib\<close>,
  those that talk to the outside are fields of a record \<open>world\<close> and are asked with the
  current value of a clock, so the same request may be answered differently at different
  times. Everything the program does to the outside is appended to a trace.
\<close>

text \<open>A Go \<open>error\<close>: a library's error, or \<open>fmt.Errorf("<prefix>: %w", err)\<close>.\<close>

datatype error = Error string | Errorf string error

fun error_string :: "error \<Rightarrow> string" where
  "error_string (Error m) = m"
| "error_string (Errorf p e) = p @ '': '' @ error_string e"

text \<open>A function that may panic: it returns, or it unwinds with the panic's value.\<close>

datatype 'a outcome = Returns 'a | Panics error

record request =
  req_method :: string
  req_url :: string
  req_header :: "(string \<times> string) list"
  req_body :: string

text \<open>
  What \<open>client.Do\<close> hands back when the round trip succeeds: the status code and what
  \<open>ioutil.ReadAll(resp.Body)\<close> will give.
\<close>

record response =
  StatusCode :: nat
  ReadAll :: "error + string"

text \<open>The anonymous structs the four responses are decoded into (the \<open>Data\<close> member).\<close>

record speed_item =
  speed_Address :: string
  speed_Speed :: string

record speed_data =
  speed_List :: "speed_item list"
  speed_Total :: string

record reward_item =
  reward_Address :: string
  reward_TotalReward :: string

record reward_data =
  reward_List :: "reward_item list"
  reward_Total :: string

record height_item =
  height_Address :: string
  height_Height :: int

record block_data =
  block_Height :: int
  block_ProofTarget :: string
  block_CoinbaseReward :: string

text \<open>
  A Prometheus descriptor (fully-qualified name, help, constant labels, written in the
  order of the label names) and a gauge. \<open>'f\<close> stands for float64.
\<close>

record desc =
  fqName :: string
  desc_help :: string
  constLabels :: "(string \<times> string) list"

record 'f gauge =
  gauge_desc :: desc
  gauge_value :: 'f

datatype 'f event =
    Log string
  | Sent request
  | GaugeSet desc 'f
  | Pushed string string "'f gauge list"

text \<open>The package-level variables, as \<open>pflag.Parse\<close> leaves them.\<close>

record config =
  pushgatewayURL :: string
  apiBaseURL :: string
  addresses :: "string list"
  defaultDuration :: int

record 'f lib =
  url_Parse :: "string \<Rightarrow> error option"
  Unmarshal_speed :: "string \<Rightarrow> error + speed_data"
  Unmarshal_reward :: "string \<Rightarrow> error + reward_data"
  Unmarshal_height :: "string \<Rightarrow> error + height_item list"
  Unmarshal_block :: "string \<Rightarrow> error + block_data"
  ParseFloat64 :: "string \<Rightarrow> error + 'f"
  float64 :: "int \<Rightarrow> 'f"
  Sprintf_f :: "'f \<Rightarrow> string"
  ValidString :: "string \<Rightarrow> bool"

record 'f world =
  client_Do :: "nat \<Rightarrow> request \<Rightarrow> error + response"
  pusher_Put :: "nat \<Rightarrow> string \<Rightarrow> string \<Rightarrow> 'f gauge list \<Rightarrow> error option"
  map_seed :: "nat \<Rightarrow> nat"

text \<open>
  The state the process carries: the clock, Prometheus' default registry (a global of
  the client library that \<open>prometheus.MustRegister\<close> writes) and the trace.
\<close>

record 'f state =
  clock :: nat
  registry :: "desc list"
  trace :: "'f event list"

section \<open>Formatting\<close>

text \<open>\<open>%d\<close> of an int.\<close>

fun dec_nat :: "nat \<Rightarrow> string" where
  "dec_nat n =
     (if n < 10 then [''0123456789'' ! n]
      else dec_nat (n div 10) @ [''0123456789'' ! (n mod 10)])"

declare dec_nat.simps [simp del]

definition Sprintf_d :: "int \<Rightarrow> string" where
  "Sprintf_d i = (if i < 0 then ''-'' @ dec_nat (nat (- i)) else dec_nat (nat i))"

section \<open>Effects\<close>

definition emit :: "'f event \<Rightarrow> 'f state \<Rightarrow> 'f state" where
  "emit e s = s\<lparr>trace := trace s @ [e]\<rparr>"

definition log_Printf :: "string \<Rightarrow> 'f state \<Rightarrow> 'f state" where
  "log_Printf msg s = emit (Log msg) s"

definition tick :: "'f state \<Rightarrow> 'f state" where
  "tick s = s\<lparr>clock := Suc (clock s)\<rparr>"

text \<open>\<open>http.NewRequest\<close> with a valid method fails only when the URL does not parse.\<close>

definition NewRequest :: "'f lib \<Rightarrow> string \<Rightarrow> string \<Rightarrow> string \<Rightarrow> error + request" where
  "NewRequest L m u b =
     (case url_Parse L u of
        Some err \<Rightarrow> Inl err
      | None \<Rightarrow> Inr \<lparr>req_method = m, req_url = u, req_header = [], req_body = b\<rparr>)"

definition Header_Set :: "string \<Rightarrow> string \<Rightarrow> request \<Rightarrow> request" where
  "Header_Set k v req = req\<lparr>req_header := (k, v) # filter (\<lambda>p. fst p \<noteq> k) (req_header req)\<rparr>"

definition Do :: "'f world \<Rightarrow> request \<Rightarrow> 'f state \<Rightarrow> (error + response) \<times> 'f state" where
  "Do W req s = (client_Do W (clock s) req, tick (emit (Sent req) s))"

definition fetchData ::
  "'f lib \<Rightarrow> 'f world \<Rightarrow> string \<Rightarrow> string \<Rightarrow> 'f state \<Rightarrow> (error + string) \<times> 'f state" where
  "fetchData L W url body s =
     (case NewRequest L ''POST'' url body of
        Inl err \<Rightarrow> (Inl (Errorf ''could not create request'' err), s)
      | Inr req0 \<Rightarrow>
          (let req = Header_Set ''Content-Type'' ''application/json'' req0 in
           case Do W req s of
             (Inl err, s1) \<Rightarrow> (Inl (Errorf ''could not fetch data'' err), s1)
           | (Inr resp, s1) \<Rightarrow>
               (case ReadAll resp of
                  Inl err \<Rightarrow> (Inl (Errorf ''could not read response'' err), s1)
                | Inr data \<Rightarrow>
                    (Inr data, log_Printf (''Response from '' @ url @ '': '' @ data) s1))))"

definition parseFloat :: "'f lib \<Rightarrow> string \<Rightarrow> error + 'f" where
  "parseFloat L s = ParseFloat64 L s"

section \<open>The Prometheus client, as far as the program uses it\<close>

text \<open>
  \<open>prometheus.NewGauge\<close> makes a gauge of value 0. \<open>Register\<close> follows the registry's
  documented contract: a descriptor whose constant label values are not valid UTF-8 is
  invalid; a descriptor of a name already registered must have the same label names and
  help; and the pair of name and constant label values must be new, otherwise the
  collector counts as already registered. \<open>MustRegister\<close> panics on any of these errors.
  The metric and label names of this program are literals that are valid.
\<close>

definition NewGauge :: "string \<Rightarrow> string \<Rightarrow> (string \<times> string) list \<Rightarrow> ('f::zero) gauge" where
  "NewGauge n h ls =
     \<lparr>gauge_desc = \<lparr>fqName = n, desc_help = h, constLabels = ls\<rparr>, gauge_value = 0\<rparr>"

definition same_dims :: "desc \<Rightarrow> desc \<Rightarrow> bool" where
  "same_dims d d' =
     (map fst (constLabels d') = map fst (constLabels d) \<and> desc_help d' = desc_help d)"

definition same_id :: "desc \<Rightarrow> desc \<Rightarrow> bool" where
  "same_id d d' =
     (fqName d' = fqName d \<and> map snd (constLabels d') = map snd (constLabels d))"

definition Register :: "'f lib \<Rightarrow> desc \<Rightarrow> desc list \<Rightarrow> error + desc list" where
  "Register L d r =
     (if list_ex (\<lambda>v. \<not> ValidString L v) (map snd (constLabels d))
      then Inl (Error ''descriptor is invalid'')
      else if list_ex (\<lambda>d'. fqName d' = fqName d \<and> \<not> same_dims d d') r
      then Inl (Error ''a previously registered descriptor with the same fully-qualified name has different label names or a different help string'')
      else if list_ex (same_id d) r
      then Inl (Error ''duplicate metrics collector registration attempted'')
      else Inr (r @ [d]))"

definition MustRegister :: "'f lib \<Rightarrow> 'f gauge \<Rightarrow> 'f state \<Rightarrow> error + 'f state" where
  "MustRegister L g s =
     (case Register L (gauge_desc g) (registry s) of
        Inl err \<Rightarrow> Inl err
      | Inr r \<Rightarrow> Inr (s\<lparr>registry := r\<rparr>))"

definition gauge_Set :: "'f gauge \<Rightarrow> 'f \<Rightarrow> 'f state \<Rightarrow> 'f gauge \<times> 'f state" where
  "gauge_Set g v s = (g\<lparr>gauge_value := v\<rparr>, emit (GaugeSet (gauge_desc g) v) s)"

text \<open>
  \<open>push.New(url, job).Collector(c1)...Push()\<close>: the pusher registers its collectors in
  a registry of its own; the first error is kept and \<open>Push\<close> returns it without sending.
  Otherwise the metrics are sent, and the outcome of the HTTP PUT is the world's.
\<close>

fun Collectors :: "'f lib \<Rightarrow> 'f gauge list \<Rightarrow> desc list \<Rightarrow> error + desc list" where
  "Collectors L [] r = Inr r"
| "Collectors L (g # gs) r =
     (case Register L (gauge_desc g) r of
        Inl err \<Rightarrow> Inl err
      | Inr r' \<Rightarrow> Collectors L gs r')"

definition Push ::
  "'f lib \<Rightarrow> 'f world \<Rightarrow> string \<Rightarrow> string \<Rightarrow> 'f gauge list \<Rightarrow> 'f state \<Rightarrow> error option \<times> 'f state" where
  "Push L W url job gs s =
     (case Collectors L gs [] of
        Inl err \<Rightarrow> (Some err, s)
      | Inr r \<Rightarrow> (pusher_Put W (clock s) url job gs, tick (emit (Pushed url job gs) s)))"

section \<open>The four fetch functions\<close>

definition speed_body :: "string \<Rightarrow> int \<Rightarrow> string" where
  \<open>speed_body address duration =
     ''{"address":["'' @ address @ ''"],"duration":'' @ Sprintf_d duration @ ''}''\<close>

definition address_body :: "string \<Rightarrow> string" where
  \<open>address_body address = ''{"address":["'' @ address @ ''"]}''\<close>

text \<open>The loop over \<open>result.Data.List\<close> of \<open>fetchProverSpeed\<close>.\<close>

fun speed_items ::
  "'f lib \<Rightarrow> string \<Rightarrow> speed_item list \<Rightarrow> 'f gauge \<Rightarrow> 'f state \<Rightarrow> 'f gauge \<times> 'f state" where
  "speed_items L durationName [] proverSpeed s = (proverSpeed, s)"
| "speed_items L durationName (item # items) proverSpeed s =
     (case parseFloat L (speed_Speed item) of
        Inl err \<Rightarrow>
          speed_items L durationName items proverSpeed
            (log_Printf (''Invalid speed value: '' @ speed_Speed item) s)
      | Inr speed \<Rightarrow>
          (case gauge_Set proverSpeed speed s of
             (proverSpeed', s1) \<Rightarrow>
               speed_items L durationName items proverSpeed'
                 (log_Printf (''Set prover speed: address='' @ speed_Address item
                    @ '', duration='' @ durationName @ '', speed='' @ Sprintf_f L speed) s1)))"

definition fetchProverSpeed ::
  "('f::zero) lib \<Rightarrow> 'f world \<Rightarrow> config \<Rightarrow> string \<Rightarrow> int \<Rightarrow> string \<Rightarrow> 'f state
     \<Rightarrow> error option outcome \<times> 'f state" where
  "fetchProverSpeed L W cfg address duration durationName s =
     (let url = apiBaseURL cfg @ ''/api/v1/provers/prover_speed_list'';
          body = speed_body address duration
      in case fetchData L W url body s of
        (Inl err, s1) \<Rightarrow> (Returns (Some err), s1)
      | (Inr data, s1) \<Rightarrow>
     (case Unmarshal_speed L data of
        Inl err \<Rightarrow>
          (Returns (Some (Errorf ''could not unmarshal prover speed response'' err)), s1)
      | Inr result \<Rightarrow>
     (let proverSpeed = NewGauge ''prover_speed'' ''Speed of the prover''
            [(''address'', address), (''duration'', durationName)]
      in case MustRegister L proverSpeed s1 of
        Inl p \<Rightarrow> (Panics p, s1)
      | Inr s2 \<Rightarrow>
     (case speed_items L durationName (speed_List result) proverSpeed s2 of
        (proverSpeed', s3) \<Rightarrow>
     (let totalSpeed = NewGauge ''total_speed'' ''Total speed'' [(''duration'', durationName)]
      in case MustRegister L totalSpeed s3 of
        Inl p \<Rightarrow> (Panics p, s3)
      | Inr s4 \<Rightarrow>
     (case parseFloat L (speed_Total result) of
        Inl err \<Rightarrow>
          (Returns None, log_Printf (''Invalid total speed value: '' @ speed_Total result) s4)
      | Inr totalSpeedValue \<Rightarrow>
     (case gauge_Set totalSpeed totalSpeedValue s4 of
        (totalSpeed', s5) \<Rightarrow>
     (case Push L W (pushgatewayURL cfg) ''prover_metrics'' [proverSpeed', totalSpeed']
             (log_Printf (''Set total speed: duration='' @ durationName
                @ '', total_speed='' @ Sprintf_f L totalSpeedValue) s5) of
        (r, s6) \<Rightarrow> (Returns r, s6)))))))))"

text \<open>The loop over \<open>result.Data.List\<close> of \<open>fetchProverReward\<close>.\<close>

fun reward_items ::
  "'f lib \<Rightarrow> reward_item list \<Rightarrow> 'f gauge \<Rightarrow> 'f state \<Rightarrow> 'f gauge \<times> 'f state" where
  "reward_items L [] totalReward s = (totalReward, s)"
| "reward_items L (item # items) totalReward s =
     (case parseFloat L (reward_TotalReward item) of
        Inl err \<Rightarrow>
          reward_items L items totalReward
            (log_Printf (''Invalid total reward value: '' @ reward_TotalReward item) s)
      | Inr totalRewardValue \<Rightarrow>
          (case gauge_Set totalReward totalRewardValue s of
             (totalReward', s1) \<Rightarrow>
               reward_items L items totalReward'
                 (log_Printf (''Set total reward: address='' @ reward_Address item
                    @ '', total_reward='' @ Sprintf_f L totalRewardValue) s1)))"

definition fetchProverReward ::
  "('f::zero) lib \<Rightarrow> 'f world \<Rightarrow> config \<Rightarrow> string \<Rightarrow> 'f state
     \<Rightarrow> error option outcome \<times> 'f state" where
  "fetchProverReward L W cfg address s =
     (let url = apiBaseURL cfg @ ''/api/v1/provers/prover_reward_list'';
          body = address_body address
      in case fetchData L W url body s of
        (Inl err, s1) \<Rightarrow> (Returns (Some err), s1)
      | (Inr data, s1) \<Rightarrow>
     (case Unmarshal_reward L data of
        Inl err \<Rightarrow>
          (Returns (Some (Errorf ''could not unmarshal prover reward response'' err)), s1)
      | Inr result \<Rightarrow>
     (let totalReward = NewGauge ''total_reward'' ''Total reward of the prover''
            [(''address'', address)]
      in case MustRegister L totalReward s1 of
        Inl p \<Rightarrow> (Panics p, s1)
      | Inr s2 \<Rightarrow>
     (case reward_items L (reward_List result) totalReward s2 of
        (totalReward', s3) \<Rightarrow>
     (case Push L W (pushgatewayURL cfg) ''prover_metrics'' [totalReward'] s3 of
        (r, s4) \<Rightarrow> (Returns r, s4))))))"

text \<open>The loop over \<open>result.Data\<close> of \<open>fetchProverLatestHeight\<close>.\<close>

fun height_items ::
  "'f lib \<Rightarrow> height_item list \<Rightarrow> 'f gauge \<Rightarrow> 'f state \<Rightarrow> 'f gauge \<times> 'f state" where
  "height_items L [] proverHeight s = (proverHeight, s)"
| "height_items L (item # items) proverHeight s =
     (case gauge_Set proverHeight (float64 L (height_Height item)) s of
        (proverHeight', s1) \<Rightarrow>
          height_items L items proverHeight'
            (log_Printf (''Set prover height: address='' @ height_Address item
               @ '', height='' @ Sprintf_d (height_Height item)) s1))"

definition fetchProverLatestHeight ::
  "('f::zero) lib \<Rightarrow> 'f world \<Rightarrow> config \<Rightarrow> string \<Rightarrow> 'f state
     \<Rightarrow> error option outcome \<times> 'f state" where
  "fetchProverLatestHeight L W cfg address s =
     (let url = apiBaseURL cfg @ ''/api/v1/provers/prover_latest_height'';
          body = address_body address
      in case fetchData L W url body s of
        (Inl err, s1) \<Rightarrow> (Returns (Some err), s1)
      | (Inr data, s1) \<Rightarrow>
     (case Unmarshal_height L data of
        Inl err \<Rightarrow>
          (Returns (Some (Errorf ''could not unmarshal prover latest height response'' err)), s1)
      | Inr result \<Rightarrow>
     (let proverHeight = NewGauge ''prover_height'' ''Height of the prover''
            [(''address'', address)]
      in case MustRegister L proverHeight s1 of
        Inl p \<Rightarrow> (Panics p, s1)
      | Inr s2 \<Rightarrow>
     (case height_items L result proverHeight s2 of
        (proverHeight', s3) \<Rightarrow>
     (case Push L W (pushgatewayURL cfg) ''prover_metrics'' [proverHeight'] s3 of
        (r, s4) \<Rightarrow> (Returns r, s4))))))"

definition fetchLatestBlock ::
  "('f::zero) lib \<Rightarrow> 'f world \<Rightarrow> config \<Rightarrow> 'f state \<Rightarrow> error option outcome \<times> 'f state" where
  "fetchLatestBlock L W cfg s =
     (let url = apiBaseURL cfg @ ''/api/v1/chain/latest_block''
      in case fetchData L W url '''' s of
        (Inl err, s1) \<Rightarrow> (Returns (Some err), s1)
      | (Inr data, s1') \<Rightarrow>
     (let s1 = log_Printf (''Raw response from latest block: '' @ data) s1'
      in case Unmarshal_block L data of
        Inl err \<Rightarrow>
          (Returns (Some (Errorf ''could not unmarshal latest block response'' err)), s1)
      | Inr result \<Rightarrow>
     (let latestBlockHeight = NewGauge ''latest_block_height'' ''Height of the latest block'' []
      in case MustRegister L latestBlockHeight s1 of
        Inl p \<Rightarrow> (Panics p, s1)
      | Inr s2 \<Rightarrow>
     (case gauge_Set latestBlockHeight (float64 L (block_Height result)) s2 of
        (latestBlockHeight', s3') \<Rightarrow>
     (let s3 = log_Printf (''Set latest block height: height='' @ Sprintf_d (block_Height result)) s3';
          proofTarget = NewGauge ''proof_target'' ''Proof target of the latest block'' []
      in case MustRegister L proofTarget s3 of
        Inl p \<Rightarrow> (Panics p, s3)
      | Inr s4 \<Rightarrow>
     (case parseFloat L (block_ProofTarget result) of
        Inl err \<Rightarrow>
          (Returns None,
           log_Printf (''Invalid proof target value: '' @ block_ProofTarget result) s4)
      | Inr proofTargetValue \<Rightarrow>
     (case gauge_Set proofTarget proofTargetValue s4 of
        (proofTarget', s5') \<Rightarrow>
     (let s5 = log_Printf (''Set proof target: proof_target='' @ Sprintf_f L proofTargetValue) s5';
          coinbaseReward = NewGauge ''coinbase_reward'' ''Coinbase reward of the latest block'' []
      in case MustRegister L coinbaseReward s5 of
        Inl p \<Rightarrow> (Panics p, s5)
      | Inr s6 \<Rightarrow>
     (case parseFloat L (block_CoinbaseReward result) of
        Inl err \<Rightarrow>
          (Returns None,
           log_Printf (''Invalid coinbase reward value: '' @ block_CoinbaseReward result) s6)
      | Inr coinbaseRewardValue \<Rightarrow>
     (case gauge_Set coinbaseReward coinbaseRewardValue s6 of
        (coinbaseReward', s7) \<Rightarrow>
     (case Push L W (pushgatewayURL cfg) ''latest_block_metrics''
             [latestBlockHeight', proofTarget', coinbaseReward']
             (log_Printf (''Set coinbase reward: coinbase_reward=''
                @ Sprintf_f L coinbaseRewardValue) s7) of
        (r, s8) \<Rightarrow> (Returns r, s8))))))))))))"

section \<open>The cycle and the main loop\<close>

text \<open>
  \<open>durations\<close> is a Go map, and the order in which \<open>range\<close> walks a map is chosen by
  the runtime at each loop. \<open>range_order seed\<close> is one of the orders: as the seed runs
  through the naturals, every permutation of the entries occurs.
\<close>

definition durations :: "(string \<times> int) list" where
  "durations = [(''15m'', 900), (''1h'', 3600), (''12h'', 43200), (''24h'', 86400)]"

fun range_order :: "nat \<Rightarrow> 'a list \<Rightarrow> 'a list" where
  "range_order seed [] = []"
| "range_order seed (x # xs) =
     (let ys = range_order (seed div Suc (length xs)) xs;
          i = seed mod Suc (length xs)
      in take i ys @ x # drop i ys)"

text \<open>\<open>if err != nil { log.Printf("<what>: %v", err) }\<close>\<close>

definition log_if_error :: "string \<Rightarrow> error option \<Rightarrow> 'f state \<Rightarrow> 'f state" where
  "log_if_error what r s =
     (case r of None \<Rightarrow> s | Some err \<Rightarrow> log_Printf (what @ '': '' @ error_string err) s)"

fun durations_loop ::
  "('f::zero) lib \<Rightarrow> 'f world \<Rightarrow> config \<Rightarrow> string \<Rightarrow> (string \<times> int) list \<Rightarrow> 'f state
     \<Rightarrow> unit outcome \<times> 'f state" where
  "durations_loop L W cfg address [] s = (Returns (), s)"
| "durations_loop L W cfg address ((durationName, duration) # rest) s =
     (case fetchProverSpeed L W cfg address duration durationName
             (log_Printf (''Fetching prover speed for address '' @ address
                @ '' and duration '' @ durationName) s) of
        (Panics p, s1) \<Rightarrow> (Panics p, s1)
      | (Returns r, s1) \<Rightarrow>
          durations_loop L W cfg address rest
            (log_if_error (''Error fetching prover speed for address '' @ address
               @ '' and duration '' @ durationName) r s1))"

fun addresses_loop ::
  "('f::zero) lib \<Rightarrow> 'f world \<Rightarrow> config \<Rightarrow> string list \<Rightarrow> 'f state
     \<Rightarrow> unit outcome \<times> 'f state" where
  "addresses_loop L W cfg [] s = (Returns (), s)"
| "addresses_loop L W cfg (address # rest) s =
     (case durations_loop L W cfg address (range_order (map_seed W (clock s)) durations)
             (tick s) of
        (Panics p, s1) \<Rightarrow> (Panics p, s1)
      | (Returns u, s1) \<Rightarrow>
     (case fetchProverReward L W cfg address
             (log_Printf (''Fetching prover reward for address '' @ address) s1) of
        (Panics p, s2) \<Rightarrow> (Panics p, s2)
      | (Returns r, s2) \<Rightarrow>
     (case fetchProverLatestHeight L W cfg address
             (log_Printf (''Fetching prover latest height for address '' @ address)
                (log_if_error (''Error fetching prover reward for address '' @ address) r s2)) of
        (Panics p, s3) \<Rightarrow> (Panics p, s3)
      | (Returns r', s3) \<Rightarrow>
          addresses_loop L W cfg rest
            (log_if_error (''Error fetching prover latest height for address '' @ address)
               r' s3))))"

definition fetchDataAndPush ::
  "('f::zero) lib \<Rightarrow> 'f world \<Rightarrow> config \<Rightarrow> 'f state \<Rightarrow> unit outcome \<times> 'f state" where
  "fetchDataAndPush L W cfg s =
     (case addresses_loop L W cfg (addresses cfg)
             (log_Printf ''Fetching data and pushing to Pushgateway'' s) of
        (Panics p, s1) \<Rightarrow> (Panics p, s1)
      | (Returns u, s1) \<Rightarrow>
     (case fetchLatestBlock L W cfg (log_Printf ''Fetching latest block'' s1) of
        (Panics p, s2) \<Rightarrow> (Panics p, s2)
      | (Returns r, s2) \<Rightarrow>
          (Returns (), log_if_error ''Error fetching latest block'' r s2)))"

text \<open>
  \<open>main\<close> never returns: it exits through \<open>log.Fatal\<close>, dies of a panic, or is still
  in its loop after the ticks it was given. \<open>time.NewTicker\<close> panics on an interval that
  is not positive.
\<close>

datatype exit = Fatal | Panicked error | Running

fun ticker_loop ::
  "('f::zero) lib \<Rightarrow> 'f world \<Rightarrow> config \<Rightarrow> nat \<Rightarrow> 'f state \<Rightarrow> exit \<times> 'f state" where
  "ticker_loop L W cfg 0 s = (Running, s)"
| "ticker_loop L W cfg (Suc n) s =
     (case fetchDataAndPush L W cfg s of
        (Panics p, s1) \<Rightarrow> (Panicked p, s1)
      | (Returns u, s1) \<Rightarrow> ticker_loop L W cfg n s1)"

definition main ::
  "('f::zero) lib \<Rightarrow> 'f world \<Rightarrow> config \<Rightarrow> nat \<Rightarrow> 'f state \<Rightarrow> exit \<times> 'f state" where
  "main L W cfg ticks s =
     (if length (addresses cfg) = 0 then (Fatal, log_Printf ''No addresses provided'' s)
      else case fetchDataAndPush L W cfg (log_Printf ''Starting prover monitor'' s) of
        (Panics p, s1) \<Rightarrow> (Panicked p, s1)
      | (Returns u, s1) \<Rightarrow>
          (if defaultDuration cfg \<le> 0
           then (Panicked (Error ''non-positive interval for NewTicker''), s1)
           else ticker_loop L W cfg ticks s1))"

text \<open>The process starts with nothing of its own registered and nothing done.\<close>

definition start :: "'f state" where
  "start = \<lparr>clock = 0, registry = [], trace = []\<rparr>"

section \<open>Reading a trace\<close>

fun requests_of :: "'f event list \<Rightarrow> request list" where
  "requests_of [] = []"
| "requests_of (Sent req # es) = req # requests_of es"
| "requests_of (e # es) = requests_of es"

fun sets_of :: "'f event list \<Rightarrow> (desc \<times> 'f) list" where
  "sets_of [] = []"
| "sets_of (GaugeSet d v # es) = (d, v) # sets_of es"
| "sets_of (e # es) = sets_of es"

fun pushes_of :: "'f event list \<Rightarrow> (string \<times> string \<times> 'f gauge list) list" where
  "pushes_of [] = []"
| "pushes_of (Pushed url job gs # es) = (url, job, gs) # pushes_of es"
| "pushes_of (e # es) = pushes_of es"

fun logs_of :: "'f event list \<Rightarrow> string list" where
  "logs_of [] = []"
| "logs_of (Log m # es) = m # logs_of es"
| "logs_of (e # es) = logs_of es"

section \<open>A concrete API, for running the program\<close>

text \<open>
  Floats are integers here, which is enough for the values below. The decoders know the
  four bodies the API of this scenario sends and refuse anything else; the number parser
  knows the numerals that occur in them.
\<close>

definition speed_json :: string where
  \<open>speed_json = ''{"data":{"list":[{"address":"aleo1a","speed":"7"}],"total":"9"}}''\<close>

definition speed_json_no_total :: string where
  \<open>speed_json_no_total = ''{"data":{"list":[{"address":"aleo1a","speed":"7"}]}}''\<close>

definition reward_json :: string where
  \<open>reward_json = ''{"data":{"list":[{"address":"aleo1a","total_reward":"3"}],"total":"3"}}''\<close>

definition height_json :: string where
  \<open>height_json = ''{"data":[{"address":"aleo1a","height":100}]}''\<close>

definition block_json :: string where
  \<open>block_json = ''{"data":{"height":100,"proof_target":"5","coinbase_reward":"2"}}''\<close>

definition block_json_no_target :: string where
  \<open>block_json_no_target = ''{"data":{"height":100,"coinbase_reward":"2"}}''\<close>

definition decode :: "(string \<times> 'a) list \<Rightarrow> string \<Rightarrow> error + 'a" where
  "decode table b =
     (case map_of table b of
        None \<Rightarrow> Inl (Error ''invalid character'')
      | Some v \<Rightarrow> Inr v)"

definition api_lib :: "int lib" where
  "api_lib =
     \<lparr>url_Parse = (\<lambda>u. None),
      Unmarshal_speed = decode
        [(speed_json,
            \<lparr>speed_List = [\<lparr>speed_Address = ''aleo1a'', speed_Speed = ''7''\<rparr>],
             speed_Total = ''9''\<rparr>),
         (speed_json_no_total,
            \<lparr>speed_List = [\<lparr>speed_Address = ''aleo1a'', speed_Speed = ''7''\<rparr>],
             speed_Total = ''''\<rparr>)],
      Unmarshal_reward = decode
        [(reward_json,
            \<lparr>reward_List = [\<lparr>reward_Address = ''aleo1a'', reward_TotalReward = ''3''\<rparr>],
             reward_Total = ''3''\<rparr>)],
      Unmarshal_height = decode
        [(height_json, [\<lparr>height_Address = ''aleo1a'', height_Height = 100\<rparr>])],
      Unmarshal_block = decode
        [(block_json,
            \<lparr>block_Height = 100, block_ProofTarget = ''5'', block_CoinbaseReward = ''2''\<rparr>),
         (block_json_no_target,
            \<lparr>block_Height = 100, block_ProofTarget = [], block_CoinbaseReward = ''2''\<rparr>)],
      ParseFloat64 = decode [(''2'', 2), (''3'', 3), (''5'', 5), (''7'', 7), (''9'', 9)],
      float64 = (\<lambda>i. i),
      Sprintf_f = (\<lambda>v. Sprintf_d v @ ''.000000''),
      ValidString = (\<lambda>v. True)\<rparr>"

definition api_answer :: "string \<Rightarrow> request \<Rightarrow> error + response" where
  "api_answer speed req =
     (case map_of
        [(''http://api/api/v1/provers/prover_speed_list'', speed),
         (''http://api/api/v1/provers/prover_reward_list'', reward_json),
         (''http://api/api/v1/provers/prover_latest_height'', height_json),
         (''http://api/api/v1/chain/latest_block'', block_json)] (req_url req) of
        None \<Rightarrow> Inr \<lparr>StatusCode = 404, ReadAll = Inr ''404 page not found''\<rparr>
      | Some b \<Rightarrow> Inr \<lparr>StatusCode = 200, ReadAll = Inr b\<rparr>)"

definition api_world :: "int world" where
  "api_world =
     \<lparr>client_Do = (\<lambda>t. api_answer speed_json),
      pusher_Put = (\<lambda>t url job gs. None),
      map_seed = (\<lambda>t. 0)\<rparr>"

definition api_world_no_total :: "int world" where
  "api_world_no_total =
     \<lparr>client_Do = (\<lambda>t. api_answer speed_json_no_total),
      pusher_Put = (\<lambda>t url job gs. None),
      map_seed = (\<lambda>t. 0)\<rparr>"

definition api_world_no_target :: "int world" where
  "api_world_no_target =
     \<lparr>client_Do = (\<lambda>t req.
        if req_url req = ''http://api/api/v1/chain/latest_block''
        then Inr \<lparr>StatusCode = 200, ReadAll = Inr block_json_no_target\<rparr>
        else api_answer speed_json req),
      pusher_Put = (\<lambda>t url job gs. None),
      map_seed = (\<lambda>t. 0)\<rparr>"

definition api_down :: "int world" where
  "api_down =
     \<lparr>client_Do = (\<lambda>t req. Inl (Error ''connection refused'')),
      pusher_Put = (\<lambda>t url job gs. None),
      map_seed = (\<lambda>t. 0)\<rparr>"

definition one_address :: config where
  "one_address =
     \<lparr>pushgatewayURL = ''http://pushgateway:9091'', apiBaseURL = ''http://api'',
      addresses = [''aleo1a''], defaultDuration = 300000000000\<rparr>"

definition two_addresses :: config where
  "two_addresses = one_address\<lparr>addresses := [''aleo1a'', ''aleo1b'']\<rparr>"

definition no_addresses :: config where
  "no_addresses = one_address\<lparr>addresses := []\<rparr>"

definition wrong_base :: config where
  "wrong_base = one_address\<lparr>apiBaseURL := ''http://api/v2''\<rparr>"

text \<open>What the first cycle of the scenario with one address leaves in the registry.\<close>

definition registered_once :: "desc list" where
  "registered_once =
     [\<lparr>fqName = ''prover_speed'', desc_help = ''Speed of the prover'',
        constLabels = [(''address'', ''aleo1a''), (''duration'', ''15m'')]\<rparr>,
      \<lparr>fqName = ''total_speed'', desc_help = ''Total speed'',
        constLabels = [(''duration'', ''15m'')]\<rparr>,
      \<lparr>fqName = ''prover_speed'', desc_help = ''Speed of the prover'',
        constLabels = [(''address'', ''aleo1a''), (''duration'', ''1h'')]\<rparr>,
      \<lparr>fqName = ''total_speed'', desc_help = ''Total speed'',
        constLabels = [(''duration'', ''1h'')]\<rparr>,
      \<lparr>fqName = ''prover_speed'', desc_help = ''Speed of the prover'',
        constLabels = [(''address'', ''aleo1a''), (''duration'', ''12h'')]\<rparr>,
      \<lparr>fqName = ''total_speed'', desc_help = ''Total speed'',
        constLabels = [(''duration'', ''12h'')]\<rparr>,
      \<lparr>fqName = ''prover_speed'', desc_help = ''Speed of the prover'',
        constLabels = [(''address'', ''aleo1a''), (''duration'', ''24h'')]\<rparr>,
      \<lparr>fqName = ''total_speed'', desc_help = ''Total speed'',
        constLabels = [(''duration'', ''24h'')]\<rparr>,
      \<lparr>fqName = ''total_reward'', desc_help = ''Total reward of the prover'',
        constLabels = [(''address'', ''aleo1a'')]\<rparr>,
      \<lparr>fqName = ''prover_height'', desc_help = ''Height of the prover'',
        constLabels = [(''address'', ''aleo1a'')]\<rparr>,
      \<lparr>fqName = ''latest_block_height'', desc_help = ''Height of the latest block'',
        constLabels = []\<rparr>,
      \<lparr>fqName = ''proof_target'', desc_help = ''Proof target of the latest block'',
        constLabels = []\<rparr>,
      \<lparr>fqName = ''coinbase_reward'', desc_help = ''Coinbase reward of the latest block'',
        constLabels = []\<rparr>]"

section \<open>JSON: the encoder behind \<open>toJSON\<close>, and well-formed texts\<close>

text \<open>
  UTF-8 (RFC 3629). \<open>rune_size\<close> gives the number of bytes of the well-formed sequence a
  text starts with: one byte below 0x80; a lead byte 0xC2 to 0xDF, 0xE0 to 0xEF or 0xF0
  to 0xF4 with one, two or three continuation bytes 0x80 to 0xBF, the first of them
  narrowed after 0xE0 (no overlong form), 0xED (no surrogate), 0xF0 (no overlong form)
  and 0xF4 (nothing above U+10FFFF). \<open>rune_value\<close> is the code point of one sequence.
\<close>

definition tail_byte :: "char \<Rightarrow> bool" where
  "tail_byte c = (128 \<le> (of_char c :: nat) \<and> (of_char c :: nat) \<le> 191)"

definition second_byte :: "char \<Rightarrow> char \<Rightarrow> bool" where
  "second_byte b0 b1 =
     (if b0 = CHR 0xE0 then 160 \<le> (of_char b1 :: nat) \<and> (of_char b1 :: nat) \<le> 191
      else if b0 = CHR 0xED then 128 \<le> (of_char b1 :: nat) \<and> (of_char b1 :: nat) \<le> 159
      else if b0 = CHR 0xF0 then 144 \<le> (of_char b1 :: nat) \<and> (of_char b1 :: nat) \<le> 191
      else if b0 = CHR 0xF4 then 128 \<le> (of_char b1 :: nat) \<and> (of_char b1 :: nat) \<le> 143
      else tail_byte b1)"

definition rune_size :: "string \<Rightarrow> nat option" where
  "rune_size s =
     (case s of
        [] \<Rightarrow> None
      | b0 # r0 \<Rightarrow>
          if (of_char b0 :: nat) < 128 then Some 1
          else if 194 \<le> (of_char b0 :: nat) \<and> (of_char b0 :: nat) \<le> 223 then
            (case r0 of
               [] \<Rightarrow> None
             | b1 # r1 \<Rightarrow> if tail_byte b1 then Some 2 else None)
          else if 224 \<le> (of_char b0 :: nat) \<and> (of_char b0 :: nat) \<le> 239 then
            (case r0 of
               [] \<Rightarrow> None
             | b1 # r1 \<Rightarrow>
                 (case r1 of
                    [] \<Rightarrow> None
                  | b2 # r2 \<Rightarrow>
                      if second_byte b0 b1 \<and> tail_byte b2 then Some 3 else None))
          else if 240 \<le> (of_char b0 :: nat) \<and> (of_char b0 :: nat) \<le> 244 then
            (case r0 of
               [] \<Rightarrow> None
             | b1 # r1 \<Rightarrow>
                 (case r1 of
                    [] \<Rightarrow> None
                  | b2 # r2 \<Rightarrow>
                      (case r2 of
                         [] \<Rightarrow> None
                       | b3 # r3 \<Rightarrow>
                           if second_byte b0 b1 \<and> tail_byte b2 \<and> tail_byte b3
                           then Some 4 else None)))
          else None)"

definition rune_value :: "string \<Rightarrow> nat" where
  "rune_value s =
     (case map of_char s of
        [] \<Rightarrow> 65533
      | b0 # r0 \<Rightarrow>
          (case r0 of
             [] \<Rightarrow> b0
           | b1 # r1 \<Rightarrow>
               (case r1 of
                  [] \<Rightarrow> (b0 mod 32) * 64 + b1 mod 64
                | b2 # r2 \<Rightarrow>
                    (case r2 of
                       [] \<Rightarrow> (b0 mod 16) * 4096 + (b1 mod 64) * 64 + b2 mod 64
                     | b3 # r3 \<Rightarrow>
                         (b0 mod 8) * 262144 + (b1 mod 64) * 4096 + (b2 mod 64) * 64
                           + b3 mod 64))))"

text \<open>
  \<open>utf8.DecodeRuneInString\<close>: the first rune of a text and its width in bytes;
  \<open>(RuneError, 0)\<close> for the empty text, \<open>(RuneError, 1)\<close> where the text does not start
  with a well-formed sequence. \<open>RuneError\<close> is U+FFFD, 65533.
\<close>

definition DecodeRuneInString :: "string \<Rightarrow> nat \<times> nat" where
  "DecodeRuneInString s =
     (if s = [] then (65533, 0)
      else (case rune_size s of
              None \<Rightarrow> (65533, 1)
            | Some n \<Rightarrow> (rune_value (take n s), n)))"

text \<open>A text is valid UTF-8 when it is a sequence of well-formed sequences.\<close>

function utf8_valid :: "string \<Rightarrow> bool" where
  "utf8_valid [] = True"
| "utf8_valid (b # bs) =
     (case rune_size (b # bs) of
        None \<Rightarrow> False
      | Some n \<Rightarrow> utf8_valid (drop n (b # bs)))"
  by pat_completeness auto
termination
  by (relation "measure length")
     (auto simp: rune_size_def split: if_splits list.splits)

text \<open>The code points of a text, an invalid byte counting as U+FFFD.\<close>

function runes :: "string \<Rightarrow> nat list" where
  "runes [] = []"
| "runes (b # bs) =
     (case DecodeRuneInString (b # bs) of
        (c, sz) \<Rightarrow> c # runes (drop sz (b # bs)))"
  by pat_completeness auto
termination
  by (relation "measure length")
     (auto simp: DecodeRuneInString_def rune_size_def split: if_splits list.splits)

text \<open>
  \<open>toJSON\<close> is \<open>json.Marshal\<close>; the program gives it the address list. A Go string is
  encoded between double quotes, byte by byte: an ASCII byte of the encoder's
  \<open>htmlSafeSet\<close> (0x20 to 0x7f without the double quote, the backslash and the three
  characters \<open><\<close>, \<open>>\<close>, \<open>&\<close>) is copied; any other ASCII byte is escaped, with a short
  escape where there is one (Go 1.22 and later; older versions write \<open>\u0008\<close> and
  \<open>\u000c\<close>) and as \<open>\u00XX\<close> otherwise. At a byte from 0x80 on the encoder decodes
  one rune of the next four bytes with \<open>utf8.DecodeRuneInString\<close>: an invalid byte
  becomes the escape \<open>\ufffd\<close>, U+2028 and U+2029 are escaped, any other rune is copied.
\<close>

definition hex :: "nat \<Rightarrow> char" where
  "hex n = ''0123456789abcdef'' ! n"

definition htmlSafe :: "char \<Rightarrow> bool" where
  "htmlSafe b =
     (32 \<le> (of_char b :: nat) \<and> (of_char b :: nat) < 128 \<and>
      b \<notin> set [CHR 0x22, CHR ''&'', CHR ''<'', CHR ''>'', CHR 0x5C])"

definition escape :: "char \<Rightarrow> string" where
  "escape b =
     (if b = CHR 0x5C \<or> b = CHR 0x22 then [CHR 0x5C, b]
      else if b = CHR 0x08 then [CHR 0x5C, CHR ''b'']
      else if b = CHR 0x0C then [CHR 0x5C, CHR ''f'']
      else if b = CHR 0x0A then [CHR 0x5C, CHR ''n'']
      else if b = CHR 0x0D then [CHR 0x5C, CHR ''r'']
      else if b = CHR 0x09 then [CHR 0x5C, CHR ''t'']
      else [CHR 0x5C, CHR ''u'', CHR ''0'', CHR ''0'',
            hex ((of_char b :: nat) div 16), hex ((of_char b :: nat) mod 16)])"

function appendString :: "string \<Rightarrow> string" where
  "appendString [] = []"
| "appendString (b # src) =
     (if (of_char b :: nat) < 128 then
        (if htmlSafe b then b # appendString src
         else escape b @ appendString src)
      else
        (case DecodeRuneInString (take 4 (b # src)) of
           (c, sz) \<Rightarrow>
             if c = 65533 \<and> sz = 1 then
               [CHR 0x5C, CHR ''u'', CHR ''f'', CHR ''f'', CHR ''f'', CHR ''d'']
                 @ appendString (drop sz (b # src))
             else if c = 8232 \<or> c = 8233 then
               [CHR 0x5C, CHR ''u'', CHR ''2'', CHR ''0'', CHR ''2'', hex (c mod 16)]
                 @ appendString (drop sz (b # src))
             else
               take sz (b # src) @ appendString (drop sz (b # src))))"
  by pat_completeness auto
termination
  by (relation "measure length")
     (auto simp: DecodeRuneInString_def rune_size_def split: if_splits list.splits)

fun join :: "string \<Rightarrow> string list \<Rightarrow> string" where
  "join sep [] = []"
| "join sep [x] = x"
| "join sep (x # y # xs) = x @ sep @ join sep (y # xs)"

text \<open>\<open>toJSON\<close> of a (non-nil) \<open>[]string\<close>.\<close>

definition toJSON :: "string list \<Rightarrow> string" where
  "toJSON v =
     ''['' @ join '','' (map (\<lambda>s. [CHR 0x22] @ appendString s @ [CHR 0x22]) v) @ '']''"

text \<open>
  The bodies as the sibling revision of \<open>main.go\<close> builds them, from \<open>toJSON\<close> of the
  address list: \<open>fmt.Sprintf(`{"address":%v,"duration":%d}`, toJSON(addresses), duration)\<close>
  and \<open>fmt.Sprintf(`{"address":%v}`, toJSON(addresses))\<close>.
\<close>

definition speed_body_toJSON :: "string list \<Rightarrow> int \<Rightarrow> string" where
  \<open>speed_body_toJSON addrs duration =
     ''{"address":'' @ toJSON addrs @ '',"duration":'' @ Sprintf_d duration @ ''}''\<close>

definition address_body_toJSON :: "string list \<Rightarrow> string" where
  \<open>address_body_toJSON addrs =
     ''{"address":'' @ toJSON addrs @ ''}''\<close>

text \<open>
  The bytes a JSON string cannot hold as they are (RFC 8259): the double quote, the
  backslash and the control characters below 0x20. The three ASCII characters
  \<open>json.Marshal\<close> escapes although JSON does not ask for it are \<open><\<close>, \<open>>\<close> and \<open>&\<close>.
\<close>

definition needs_escape :: "char \<Rightarrow> bool" where
  "needs_escape c = (c = CHR 0x22 \<or> c = CHR 0x5C \<or> (of_char c :: nat) < 32)"

definition html_char :: "char \<Rightarrow> bool" where
  "html_char c = (c = CHR ''<'' \<or> c = CHR ''>'' \<or> c = CHR ''&'')"

definition line_separator :: "nat \<Rightarrow> bool" where
  "line_separator r = (r = 8232 \<or> r = 8233)"

text \<open>
  A recogniser of the JSON texts of RFC 8259, encoded in UTF-8 as its section 8.1 asks.
  Between its quotes a string holds escapes of the grammar and unescaped characters from
  U+0020 on other than the double quote and the backslash, each a well-formed UTF-8
  sequence: a byte from 0x80 on that starts none ends the scan. Each scanner returns
  what follows the text it accepted. The fuel bounds the number of nested and
  consecutive values; the length of the text is always enough, since every value takes
  at least one byte.
\<close>

definition is_digit :: "char \<Rightarrow> bool" where
  "is_digit c = (48 \<le> (of_char c :: nat) \<and> (of_char c :: nat) \<le> 57)"

definition is_hex :: "char \<Rightarrow> bool" where
  "is_hex c = (is_digit c \<or> c \<in> set ''abcdefABCDEF'')"

definition is_ws :: "char \<Rightarrow> bool" where
  "is_ws c = (c \<in> set [CHR 0x20, CHR 0x09, CHR 0x0A, CHR 0x0D])"

definition skip_ws :: "string \<Rightarrow> string" where
  "skip_ws cs = dropWhile is_ws cs"

function scan_string :: "string \<Rightarrow> string option" where
  "scan_string [] = None"
| "scan_string (c # cs) =
     (if c = CHR 0x22 then Some cs
      else if c = CHR 0x5C then
        (case cs of
           [] \<Rightarrow> None
         | e # cs' \<Rightarrow>
             if e \<in> set [CHR 0x22, CHR 0x5C, CHR ''/'', CHR ''b'', CHR ''f'', CHR ''n'',
                          CHR ''r'', CHR ''t'']
             then scan_string cs'
             else if e = CHR ''u'' \<and> 4 \<le> length cs' \<and> list_all is_hex (take 4 cs')
             then scan_string (drop 4 cs')
             else None)
      else if (of_char c :: nat) < 32 then None
      else (case rune_size (c # cs) of
              None \<Rightarrow> None
            | Some n \<Rightarrow> scan_string (drop n (c # cs))))"
  by pat_completeness auto
termination
  by (relation "measure length")
     (auto simp: rune_size_def split: if_splits list.splits)

definition scan_exp :: "string \<Rightarrow> string option" where
  "scan_exp cs =
     (case cs of
        [] \<Rightarrow> Some cs
      | e # r \<Rightarrow>
          if e = CHR ''e'' \<or> e = CHR ''E'' then
            (case (case r of [] \<Rightarrow> r
                   | sg # r' \<Rightarrow> if sg = CHR ''+'' \<or> sg = CHR ''-'' then r' else r) of
               [] \<Rightarrow> None
             | d # r'' \<Rightarrow> if is_digit d then Some (dropWhile is_digit r'') else None)
          else Some cs)"

definition scan_frac :: "string \<Rightarrow> string option" where
  "scan_frac cs =
     (case cs of
        [] \<Rightarrow> Some cs
      | p # r \<Rightarrow>
          if p = CHR ''.'' then
            (case r of
               [] \<Rightarrow> None
             | d # r' \<Rightarrow> if is_digit d then scan_exp (dropWhile is_digit r') else None)
          else scan_exp cs)"

definition scan_int :: "string \<Rightarrow> string option" where
  "scan_int cs =
     (case cs of
        [] \<Rightarrow> None
      | d # r \<Rightarrow>
          if d = CHR ''0'' then scan_frac r
          else if is_digit d then scan_frac (dropWhile is_digit r)
          else None)"

definition scan_number :: "string \<Rightarrow> string option" where
  "scan_number cs =
     (case cs of
        [] \<Rightarrow> None
      | m # r \<Rightarrow> if m = CHR ''-'' then scan_int r else scan_int cs)"

definition scan_literal :: "string \<Rightarrow> string \<Rightarrow> string option" where
  "scan_literal w cs = (if take (length w) cs = w then Some (drop (length w) cs) else None)"

fun json_value :: "nat \<Rightarrow> string \<Rightarrow> string option"
  and json_elements :: "nat \<Rightarrow> string \<Rightarrow> string option"
  and json_members :: "nat \<Rightarrow> string \<Rightarrow> string option" where
  "json_value 0 cs = None"
| "json_value (Suc n) cs =
     (case cs of
        [] \<Rightarrow> None
      | c # r \<Rightarrow>
          if c = CHR 0x22 then scan_string r
          else if c = CHR ''['' then
            (case skip_ws r of
               [] \<Rightarrow> None
             | c' # r' \<Rightarrow> if c' = CHR '']'' then Some r' else json_elements n (c' # r'))
          else if c = CHR ''{'' then
            (case skip_ws r of
               [] \<Rightarrow> None
             | c' # r' \<Rightarrow> if c' = CHR ''}'' then Some r' else json_members n (c' # r'))
          else if c = CHR ''t'' then scan_literal ''true'' cs
          else if c = CHR ''f'' then scan_literal ''false'' cs
          else if c = CHR ''n'' then scan_literal ''null'' cs
          else scan_number cs)"
| "json_elements 0 cs = None"
| "json_elements (Suc n) cs =
     (case json_value n cs of
        None \<Rightarrow> None
      | Some r \<Rightarrow>
          (case skip_ws r of
             [] \<Rightarrow> None
           | c # r' \<Rightarrow>
               if c = CHR '']'' then Some r'
               else if c = CHR '','' then json_elements n (skip_ws r')
               else None))"
| "json_members 0 cs = None"
| "json_members (Suc n) cs =
     (case cs of
        [] \<Rightarrow> None
      | q # k \<Rightarrow>
          if q = CHR 0x22 then
            (case scan_string k of
               None \<Rightarrow> None
             | Some r \<Rightarrow>
                 (case skip_ws r of
                    [] \<Rightarrow> None
                  | c # r' \<Rightarrow>
                      if c = CHR '':'' then
                        (case json_value n (skip_ws r') of
                           None \<Rightarrow> None
                         | Some r'' \<Rightarrow>
                             (case skip_ws r'' of
                                [] \<Rightarrow> None
                              | c' # r''' \<Rightarrow>
                                  if c' = CHR ''}'' then Some r'''
                                  else if c' = CHR '','' then json_members n (skip_ws r''')
                                  else None))
                      else None))
          else None)"

definition json_valid :: "string \<Rightarrow> bool" where
  "json_valid text =
     (case json_value (Suc (length text)) (skip_ws text) of
        None \<Rightarrow> False
      | Some r \<Rightarrow> skip_ws r = [])"

section \<open>Facts about the model\<close>

lemma requests_of_append: "requests_of (xs @ ys) = requests_of xs @ requests_of ys"
  by (induction xs rule: requests_of.induct) auto
lemma sets_of_append: "sets_of (xs @ ys) = sets_of xs @ sets_of ys"
  by (induction xs rule: sets_of.induct) auto
lemma pushes_of_append: "pushes_of (xs @ ys) = pushes_of xs @ pushes_of ys"
  by (induction xs rule: pushes_of.induct) auto
lemma speed_items_trace:
  "gauge_desc g = d \<Longrightarrow> trace (snd (speed_items L dn items g s)) =
     trace s @ concat (map (\<lambda>item.
        case parseFloat L (speed_Speed item) of
          Inl e \<Rightarrow> [Log (''Invalid speed value: '' @ speed_Speed item)]
        | Inr v \<Rightarrow> [GaugeSet d v,
             Log (''Set prover speed: address='' @ speed_Address item
                    @ '', duration='' @ dn @ '', speed='' @ Sprintf_f L v)]) items)"
  by (induction items arbitrary: g s)
     (auto simp: gauge_Set_def log_Printf_def emit_def split: sum.splits)

lemma speed_items_frame:
  "clock (snd (speed_items L dn items g s)) = clock s \<and>
   registry (snd (speed_items L dn items g s)) = registry s"
  by (induction items arbitrary: g s)
     (auto simp: gauge_Set_def log_Printf_def emit_def split: sum.splits)

lemma speed_items_gauge:
  "fst (speed_items L dn items g s) =
     g\<lparr>gauge_value := foldl (\<lambda>v item. case parseFloat L (speed_Speed item) of
            Inl e \<Rightarrow> v | Inr v' \<Rightarrow> v') (gauge_value g) items\<rparr>"
  by (induction items arbitrary: g s)
     (auto simp: gauge_Set_def log_Printf_def emit_def split: sum.splits)

lemma fetchData_cases:
  "fetchData L W url body s =
    (case url_Parse L url of
       Some err \<Rightarrow> (Inl (Errorf ''could not create request'' err), s)
     | None \<Rightarrow>
        (let req = \<lparr>req_method = ''POST'', req_url = url,
                    req_header = [(''Content-Type'', ''application/json'')], req_body = body\<rparr>;
             s1 = s\<lparr>clock := Suc (clock s), trace := trace s @ [Sent req]\<rparr>
         in case client_Do W (clock s) req of
              Inl err \<Rightarrow> (Inl (Errorf ''could not fetch data'' err), s1)
            | Inr resp \<Rightarrow>
               (case ReadAll resp of
                  Inl err \<Rightarrow> (Inl (Errorf ''could not read response'' err), s1)
                | Inr data \<Rightarrow> (Inr data,
                     s1\<lparr>trace := trace s @ [Sent req, Log (''Response from '' @ url @ '': '' @ data)]\<rparr>))))"
  by (simp add: fetchData_def NewRequest_def Header_Set_def Do_def tick_def emit_def
        log_Printf_def Let_def split: option.splits sum.splits)

lemma MustRegister_Inr:
  "MustRegister L g s = Inr s2 \<Longrightarrow>
     trace s2 = trace s \<and> clock s2 = clock s \<and>
     Register L (gauge_desc g) (registry s) = Inr (registry s2)"
  by (auto simp: MustRegister_def split: sum.splits)

lemma Register_valid:
  "Register L d r = Inr r' \<Longrightarrow> Register L d [] = Inr [d]"
  by (auto simp: Register_def split: if_splits)

lemma Register_second:
  "Register L d r = Inr r' \<Longrightarrow> fqName d1 \<noteq> fqName d \<Longrightarrow> Register L d [d1] = Inr [d1, d]"
  by (auto simp: Register_def same_id_def split: if_splits)

lemma Register_third:
  "Register L d r = Inr r' \<Longrightarrow> fqName d1 \<noteq> fqName d \<Longrightarrow> fqName d2 \<noteq> fqName d
     \<Longrightarrow> Register L d [d1, d2] = Inr [d1, d2, d]"
  by (auto simp: Register_def same_id_def split: if_splits)

lemma fetchProverSpeed_returns:
  assumes "fetchData L W (apiBaseURL cfg @ ''/api/v1/provers/prover_speed_list'')
             (speed_body a d) s = (Inr data, s1)"
      and "Unmarshal_speed L data = Inr result"
      and "fetchProverSpeed L W cfg a d dn s = (Returns r, s')"
  shows "trace s' = trace s1 @
      concat (map (\<lambda>item.
        case parseFloat L (speed_Speed item) of
          Inl e \<Rightarrow> [Log (''Invalid speed value: '' @ speed_Speed item)]
        | Inr v \<Rightarrow> [GaugeSet \<lparr>fqName = ''prover_speed'', desc_help = ''Speed of the prover'',
                 constLabels = [(''address'', a), (''duration'', dn)]\<rparr> v,
             Log (''Set prover speed: address='' @ speed_Address item
                    @ '', duration='' @ dn @ '', speed='' @ Sprintf_f L v)]) (speed_List result))
      @ (case parseFloat L (speed_Total result) of
           Inl e \<Rightarrow> [Log (''Invalid total speed value: '' @ speed_Total result)]
         | Inr t \<Rightarrow>
            [GaugeSet \<lparr>fqName = ''total_speed'', desc_help = ''Total speed'',
                 constLabels = [(''duration'', dn)]\<rparr> t,
             Log (''Set total speed: duration='' @ dn @ '', total_speed='' @ Sprintf_f L t),
             Pushed (pushgatewayURL cfg) ''prover_metrics''
               [\<lparr>gauge_desc = \<lparr>fqName = ''prover_speed'', desc_help = ''Speed of the prover'',
                   constLabels = [(''address'', a), (''duration'', dn)]\<rparr>,
                 gauge_value = foldl (\<lambda>v item. case parseFloat L (speed_Speed item) of
                    Inl e \<Rightarrow> v | Inr v' \<Rightarrow> v') 0 (speed_List result)\<rparr>,
                \<lparr>gauge_desc = \<lparr>fqName = ''total_speed'', desc_help = ''Total speed'',
                   constLabels = [(''duration'', dn)]\<rparr>, gauge_value = t\<rparr>]])"
  using assms
  apply (simp add: fetchProverSpeed_def Let_def split_beta split: sum.splits)
  apply (auto dest!: MustRegister_Inr simp: speed_items_frame speed_items_gauge speed_items_trace
      NewGauge_def gauge_Set_def log_Printf_def emit_def tick_def Push_def
      Register_valid Register_second split: sum.splits)
  done

lemma reward_items_trace:
  "gauge_desc g = d \<Longrightarrow> trace (snd (reward_items L items g s)) =
     trace s @ concat (map (\<lambda>item.
        case parseFloat L (reward_TotalReward item) of
          Inl e \<Rightarrow> [Log (''Invalid total reward value: '' @ reward_TotalReward item)]
        | Inr v \<Rightarrow> [GaugeSet d v,
             Log (''Set total reward: address='' @ reward_Address item
                    @ '', total_reward='' @ Sprintf_f L v)]) items)"
  by (induction items arbitrary: g s)
     (auto simp: gauge_Set_def log_Printf_def emit_def split: sum.splits)

lemma reward_items_frame:
  "clock (snd (reward_items L items g s)) = clock s \<and>
   registry (snd (reward_items L items g s)) = registry s"
  by (induction items arbitrary: g s)
     (auto simp: gauge_Set_def log_Printf_def emit_def split: sum.splits)

lemma reward_items_gauge:
  "fst (reward_items L items g s) =
     g\<lparr>gauge_value := foldl (\<lambda>v item. case parseFloat L (reward_TotalReward item) of
            Inl e \<Rightarrow> v | Inr v' \<Rightarrow> v') (gauge_value g) items\<rparr>"
  by (induction items arbitrary: g s)
     (auto simp: gauge_Set_def log_Printf_def emit_def split: sum.splits)

lemma height_items_trace:
  "gauge_desc g = d \<Longrightarrow> trace (snd (height_items L items g s)) =
     trace s @ concat (map (\<lambda>item.
        [GaugeSet d (float64 L (height_Height item)),
         Log (''Set prover height: address='' @ height_Address item
                @ '', height='' @ Sprintf_d (height_Height item))]) items)"
  by (induction items arbitrary: g s)
     (auto simp: gauge_Set_def log_Printf_def emit_def)

lemma height_items_frame:
  "clock (snd (height_items L items g s)) = clock s \<and>
   registry (snd (height_items L items g s)) = registry s"
  by (induction items arbitrary: g s)
     (auto simp: gauge_Set_def log_Printf_def emit_def)

lemma height_items_gauge:
  "fst (height_items L items g s) =
     g\<lparr>gauge_value := foldl (\<lambda>v item. float64 L (height_Height item)) (gauge_value g) items\<rparr>"
  by (induction items arbitrary: g s)
     (auto simp: gauge_Set_def log_Printf_def emit_def)


lemma fetchProverReward_returns:
  assumes "fetchData L W (apiBaseURL cfg @ ''/api/v1/provers/prover_reward_list'')
             (address_body a) s = (Inr data, s1)"
      and "Unmarshal_reward L data = Inr result"
      and "fetchProverReward L W cfg a s = (Returns r, s')"
  shows "trace s' = trace s1 @
      concat (map (\<lambda>item.
        case parseFloat L (reward_TotalReward item) of
          Inl e \<Rightarrow> [Log (''Invalid total reward value: '' @ reward_TotalReward item)]
        | Inr v \<Rightarrow> [GaugeSet \<lparr>fqName = ''total_reward'',
                 desc_help = ''Total reward of the prover'',
                 constLabels = [(''address'', a)]\<rparr> v,
             Log (''Set total reward: address='' @ reward_Address item
                    @ '', total_reward='' @ Sprintf_f L v)]) (reward_List result))
      @ [Pushed (pushgatewayURL cfg) ''prover_metrics''
               [\<lparr>gauge_desc = \<lparr>fqName = ''total_reward'',
                   desc_help = ''Total reward of the prover'',
                   constLabels = [(''address'', a)]\<rparr>,
                 gauge_value = foldl (\<lambda>v item. case parseFloat L (reward_TotalReward item) of
                    Inl e \<Rightarrow> v | Inr v' \<Rightarrow> v') 0 (reward_List result)\<rparr>]]"
    and "r = pusher_Put W (clock s1) (pushgatewayURL cfg) ''prover_metrics''
               [\<lparr>gauge_desc = \<lparr>fqName = ''total_reward'',
                   desc_help = ''Total reward of the prover'',
                   constLabels = [(''address'', a)]\<rparr>,
                 gauge_value = foldl (\<lambda>v item. case parseFloat L (reward_TotalReward item) of
                    Inl e \<Rightarrow> v | Inr v' \<Rightarrow> v') 0 (reward_List result)\<rparr>]"
  using assms
  by (auto dest!: MustRegister_Inr simp: fetchProverReward_def Let_def split_beta
      reward_items_frame reward_items_gauge reward_items_trace
      NewGauge_def gauge_Set_def log_Printf_def emit_def tick_def Push_def
      Register_valid split: sum.splits)

lemma fetchProverLatestHeight_returns:
  assumes "fetchData L W (apiBaseURL cfg @ ''/api/v1/provers/prover_latest_height'')
             (address_body a) s = (Inr data, s1)"
      and "Unmarshal_height L data = Inr result"
      and "fetchProverLatestHeight L W cfg a s = (Returns r, s')"
  shows "trace s' = trace s1 @
      concat (map (\<lambda>item.
        [GaugeSet \<lparr>fqName = ''prover_height'', desc_help = ''Height of the prover'',
                 constLabels = [(''address'', a)]\<rparr> (float64 L (height_Height item)),
         Log (''Set prover height: address='' @ height_Address item
                @ '', height='' @ Sprintf_d (height_Height item))]) result)
      @ [Pushed (pushgatewayURL cfg) ''prover_metrics''
               [\<lparr>gauge_desc = \<lparr>fqName = ''prover_height'',
                   desc_help = ''Height of the prover'',
                   constLabels = [(''address'', a)]\<rparr>,
                 gauge_value = foldl (\<lambda>v item. float64 L (height_Height item)) 0 result\<rparr>]]"
    and "r = pusher_Put W (clock s1) (pushgatewayURL cfg) ''prover_metrics''
               [\<lparr>gauge_desc = \<lparr>fqName = ''prover_height'',
                   desc_help = ''Height of the prover'',
                   constLabels = [(''address'', a)]\<rparr>,
                 gauge_value = foldl (\<lambda>v item. float64 L (height_Height item)) 0 result\<rparr>]"
  using assms
  by (auto dest!: MustRegister_Inr simp: fetchProverLatestHeight_def Let_def split_beta
      height_items_frame height_items_gauge height_items_trace
      NewGauge_def gauge_Set_def log_Printf_def emit_def tick_def Push_def
      Register_valid split: sum.splits)

lemma fetchLatestBlock_returns:
  assumes "fetchData L W (apiBaseURL cfg @ ''/api/v1/chain/latest_block'') [] s = (Inr data, s1)"
      and "Unmarshal_block L data = Inr result"
      and "fetchLatestBlock L W cfg s = (Returns r, s')"
  shows "trace s' = trace s1 @
      [Log (''Raw response from latest block: '' @ data),
       GaugeSet \<lparr>fqName = ''latest_block_height'', desc_help = ''Height of the latest block'',
          constLabels = []\<rparr> (float64 L (block_Height result)),
       Log (''Set latest block height: height='' @ Sprintf_d (block_Height result))]
      @ (case parseFloat L (block_ProofTarget result) of
           Inl e \<Rightarrow> [Log (''Invalid proof target value: '' @ block_ProofTarget result)]
         | Inr p \<Rightarrow>
            [GaugeSet \<lparr>fqName = ''proof_target'',
               desc_help = ''Proof target of the latest block'', constLabels = []\<rparr> p,
             Log (''Set proof target: proof_target='' @ Sprintf_f L p)]
            @ (case parseFloat L (block_CoinbaseReward result) of
                 Inl e \<Rightarrow> [Log (''Invalid coinbase reward value: '' @ block_CoinbaseReward result)]
               | Inr c \<Rightarrow>
                  [GaugeSet \<lparr>fqName = ''coinbase_reward'',
                     desc_help = ''Coinbase reward of the latest block'', constLabels = []\<rparr> c,
                   Log (''Set coinbase reward: coinbase_reward='' @ Sprintf_f L c),
                   Pushed (pushgatewayURL cfg) ''latest_block_metrics''
                    [\<lparr>gauge_desc = \<lparr>fqName = ''latest_block_height'',
                        desc_help = ''Height of the latest block'', constLabels = []\<rparr>,
                      gauge_value = float64 L (block_Height result)\<rparr>,
                     \<lparr>gauge_desc = \<lparr>fqName = ''proof_target'',
                        desc_help = ''Proof target of the latest block'', constLabels = []\<rparr>,
                      gauge_value = p\<rparr>,
                     \<lparr>gauge_desc = \<lparr>fqName = ''coinbase_reward'',
                        desc_help = ''Coinbase reward of the latest block'', constLabels = []\<rparr>,
                      gauge_value = c\<rparr>]]))"
    and "r = (case parseFloat L (block_ProofTarget result) of
           Inl e \<Rightarrow> None
         | Inr p \<Rightarrow>
            (case parseFloat L (block_CoinbaseReward result) of
                 Inl e \<Rightarrow> None
               | Inr c \<Rightarrow> pusher_Put W (clock s1) (pushgatewayURL cfg) ''latest_block_metrics''
                    [\<lparr>gauge_desc = \<lparr>fqName = ''latest_block_height'',
                        desc_help = ''Height of the latest block'', constLabels = []\<rparr>,
                      gauge_value = float64 L (block_Height result)\<rparr>,
                     \<lparr>gauge_desc = \<lparr>fqName = ''proof_target'',
                        desc_help = ''Proof target of the latest block'', constLabels = []\<rparr>,
                      gauge_value = p\<rparr>,
                     \<lparr>gauge_desc = \<lparr>fqName = ''coinbase_reward'',
                        desc_help = ''Coinbase reward of the latest block'', constLabels = []\<rparr>,
                      gauge_value = c\<rparr>]))"
  using assms
  by (auto dest!: MustRegister_Inr simp: fetchLatestBlock_def Let_def split_beta
      NewGauge_def gauge_Set_def log_Printf_def emit_def tick_def Push_def
      Register_valid Register_second Register_third split: sum.splits)

lemmas model_defs =
  main_def fetchDataAndPush_def fetchProverSpeed_def fetchProverReward_def
  fetchProverLatestHeight_def fetchLatestBlock_def fetchData_def NewRequest_def Header_Set_def
  Do_def Push_def MustRegister_def Register_def same_id_def same_dims_def NewGauge_def
  gauge_Set_def parseFloat_def log_Printf_def log_if_error_def emit_def tick_def
  speed_body_def address_body_def Sprintf_d_def dec_nat.simps durations_def start_def

lemmas api_defs =
  api_lib_def api_world_def api_world_no_total_def api_down_def api_answer_def decode_def
  speed_json_def speed_json_no_total_def reward_json_def height_json_def block_json_def
  one_address_def two_addresses_def no_addresses_def wrong_base_def

lemma api_lib_simps:
  "url_Parse api_lib u = None"
  "Unmarshal_speed api_lib speed_json =
     Inr \<lparr>speed_List = [\<lparr>speed_Address = ''aleo1a'', speed_Speed = ''7''\<rparr>],
          speed_Total = ''9''\<rparr>"
  "Unmarshal_speed api_lib speed_json_no_total =
     Inr \<lparr>speed_List = [\<lparr>speed_Address = ''aleo1a'', speed_Speed = ''7''\<rparr>],
          speed_Total = ''''\<rparr>"
  "Unmarshal_reward api_lib reward_json =
     Inr \<lparr>reward_List = [\<lparr>reward_Address = ''aleo1a'', reward_TotalReward = ''3''\<rparr>],
          reward_Total = ''3''\<rparr>"
  "Unmarshal_height api_lib height_json =
     Inr [\<lparr>height_Address = ''aleo1a'', height_Height = 100\<rparr>]"
  "Unmarshal_block api_lib block_json =
     Inr \<lparr>block_Height = 100, block_ProofTarget = ''5'', block_CoinbaseReward = ''2''\<rparr>"
  "Unmarshal_block api_lib block_json_no_target =
     Inr \<lparr>block_Height = 100, block_ProofTarget = [], block_CoinbaseReward = ''2''\<rparr>"
  "Unmarshal_speed api_lib ''404 page not found'' = Inl (Error ''invalid character'')"
  "Unmarshal_reward api_lib ''404 page not found'' = Inl (Error ''invalid character'')"
  "Unmarshal_height api_lib ''404 page not found'' = Inl (Error ''invalid character'')"
  "Unmarshal_block api_lib ''404 page not found'' = Inl (Error ''invalid character'')"
  "ParseFloat64 api_lib ''2'' = Inr 2"
  "ParseFloat64 api_lib ''3'' = Inr 3"
  "ParseFloat64 api_lib ''5'' = Inr 5"
  "ParseFloat64 api_lib ''7'' = Inr 7"
  "ParseFloat64 api_lib ''9'' = Inr 9"
  "ParseFloat64 api_lib [] = Inl (Error ''invalid character'')"
  "ParseFloat64 api_lib ''fast'' = Inl (Error ''invalid character'')"
  "float64 api_lib i = i"
  "Sprintf_f api_lib v = Sprintf_d v @ ''.000000''"
  "ValidString api_lib x = True"
  by (simp_all add: api_lib_def decode_def speed_json_def speed_json_no_total_def
      reward_json_def height_json_def block_json_def block_json_no_target_def)

lemma api_world_simps:
  "client_Do api_world t req = api_answer speed_json req"
  "client_Do api_world_no_total t req = api_answer speed_json_no_total req"
  "client_Do api_world_no_target t req =
     (if req_url req = ''http://api/api/v1/chain/latest_block''
      then Inr \<lparr>StatusCode = 200, ReadAll = Inr block_json_no_target\<rparr>
      else api_answer speed_json req)"
  "client_Do api_down t req = Inl (Error ''connection refused'')"
  "pusher_Put api_world t u j gs = None"
  "pusher_Put api_world_no_total t u j gs = None"
  "pusher_Put api_world_no_target t u j gs = None"
  "pusher_Put api_down t u j gs = None"
  "map_seed api_world t = 0"
  "map_seed api_world_no_total t = 0"
  "map_seed api_world_no_target t = 0"
  "map_seed api_down t = 0"
  by (simp_all add: api_world_def api_world_no_total_def api_world_no_target_def
      api_down_def)

lemma config_simps:
  "pushgatewayURL one_address = ''http://pushgateway:9091''"
  "apiBaseURL one_address = ''http://api''"
  "addresses one_address = [''aleo1a'']"
  "defaultDuration one_address = 300000000000"
  "pushgatewayURL two_addresses = ''http://pushgateway:9091''"
  "apiBaseURL two_addresses = ''http://api''"
  "addresses two_addresses = [''aleo1a'', ''aleo1b'']"
  "pushgatewayURL no_addresses = ''http://pushgateway:9091''"
  "apiBaseURL no_addresses = ''http://api''"
  "addresses no_addresses = []"
  "pushgatewayURL wrong_base = ''http://pushgateway:9091''"
  "apiBaseURL wrong_base = ''http://api/v2''"
  "addresses wrong_base = [''aleo1a'']"
  by (simp_all add: one_address_def two_addresses_def no_addresses_def wrong_base_def)

lemmas api_simps = api_lib_simps api_world_simps config_simps api_answer_def

lemma speed_items_requests:
  "requests_of (trace (snd (speed_items L dn items g s))) = requests_of (trace s)"
  by (induction items arbitrary: g s)
     (auto simp: gauge_Set_def log_Printf_def emit_def requests_of_append split: sum.splits)

lemma reward_items_requests:
  "requests_of (trace (snd (reward_items L items g s))) = requests_of (trace s)"
  by (induction items arbitrary: g s)
     (auto simp: gauge_Set_def log_Printf_def emit_def requests_of_append split: sum.splits)

lemma height_items_requests:
  "requests_of (trace (snd (height_items L items g s))) = requests_of (trace s)"
  by (induction items arbitrary: g s)
     (auto simp: gauge_Set_def log_Printf_def emit_def requests_of_append)

lemma MustRegister_trace: "MustRegister L g s = Inr s2 \<Longrightarrow> trace s2 = trace s"
  by (auto simp: MustRegister_def split: sum.splits)

lemma Push_requests:
  "requests_of (trace (snd (Push L W u j gs s))) = requests_of (trace s)"
  by (auto simp: Push_def emit_def tick_def requests_of_append split: sum.splits)

lemma fetchData_requests:
  "requests_of (trace (snd (fetchData L W url body s))) =
     requests_of (trace s) @
       (case url_Parse L url of
          Some e \<Rightarrow> []
        | None \<Rightarrow> [\<lparr>req_method = ''POST'', req_url = url,
                     req_header = [(''Content-Type'', ''application/json'')], req_body = body\<rparr>])"
  by (auto simp: fetchData_cases Let_def requests_of_append split: option.splits sum.splits)

lemma fetchProverSpeed_requests:
  "requests_of (trace (snd (fetchProverSpeed L W cfg a d dn s))) =
     requests_of (trace s) @
       (case url_Parse L (apiBaseURL cfg @ ''/api/v1/provers/prover_speed_list'') of
          Some e \<Rightarrow> []
        | None \<Rightarrow> [\<lparr>req_method = ''POST'',
                     req_url = apiBaseURL cfg @ ''/api/v1/provers/prover_speed_list'',
                     req_header = [(''Content-Type'', ''application/json'')],
                     req_body = speed_body a d\<rparr>])"
  using fetchData_requests [of L W "apiBaseURL cfg @ ''/api/v1/provers/prover_speed_list''"
      "speed_body a d" s]
  by (auto simp: fetchProverSpeed_def Let_def split_beta gauge_Set_def log_Printf_def emit_def
      requests_of_append speed_items_requests Push_requests
      dest!: MustRegister_trace split: sum.splits prod.splits)

lemma fetchProverReward_requests:
  "requests_of (trace (snd (fetchProverReward L W cfg a s))) =
     requests_of (trace s) @
       (case url_Parse L (apiBaseURL cfg @ ''/api/v1/provers/prover_reward_list'') of
          Some e \<Rightarrow> []
        | None \<Rightarrow> [\<lparr>req_method = ''POST'',
                     req_url = apiBaseURL cfg @ ''/api/v1/provers/prover_reward_list'',
                     req_header = [(''Content-Type'', ''application/json'')],
                     req_body = address_body a\<rparr>])"
  using fetchData_requests [of L W "apiBaseURL cfg @ ''/api/v1/provers/prover_reward_list''"
      "address_body a" s]
  by (auto simp: fetchProverReward_def Let_def split_beta gauge_Set_def log_Printf_def emit_def
      requests_of_append reward_items_requests Push_requests
      dest!: MustRegister_trace split: sum.splits prod.splits)

lemma fetchProverLatestHeight_requests:
  "requests_of (trace (snd (fetchProverLatestHeight L W cfg a s))) =
     requests_of (trace s) @
       (case url_Parse L (apiBaseURL cfg @ ''/api/v1/provers/prover_latest_height'') of
          Some e \<Rightarrow> []
        | None \<Rightarrow> [\<lparr>req_method = ''POST'',
                     req_url = apiBaseURL cfg @ ''/api/v1/provers/prover_latest_height'',
                     req_header = [(''Content-Type'', ''application/json'')],
                     req_body = address_body a\<rparr>])"
  using fetchData_requests [of L W "apiBaseURL cfg @ ''/api/v1/provers/prover_latest_height''"
      "address_body a" s]
  by (auto simp: fetchProverLatestHeight_def Let_def split_beta gauge_Set_def log_Printf_def
      emit_def requests_of_append height_items_requests Push_requests
      dest!: MustRegister_trace split: sum.splits prod.splits)

lemma fetchLatestBlock_requests:
  "requests_of (trace (snd (fetchLatestBlock L W cfg s))) =
     requests_of (trace s) @
       (case url_Parse L (apiBaseURL cfg @ ''/api/v1/chain/latest_block'') of
          Some e \<Rightarrow> []
        | None \<Rightarrow> [\<lparr>req_method = ''POST'',
                     req_url = apiBaseURL cfg @ ''/api/v1/chain/latest_block'',
                     req_header = [(''Content-Type'', ''application/json'')],
                     req_body = []\<rparr>])"
  using fetchData_requests [of L W "apiBaseURL cfg @ ''/api/v1/chain/latest_block''" "[]" s]
  by (auto simp: fetchLatestBlock_def Let_def split_beta gauge_Set_def log_Printf_def
      emit_def requests_of_append Push_requests
      dest!: MustRegister_trace split: sum.splits prod.splits)

lemma fetchData_extends: "\<exists>es. trace (snd (fetchData L W url body s)) = trace s @ es"
  by (auto simp: fetchData_cases Let_def split: option.splits sum.splits)

lemma log_if_error_extends: "\<exists>es. trace (log_if_error what r s) = trace s @ es"
  by (auto simp: log_if_error_def log_Printf_def emit_def split: option.splits)

lemma fetchProverSpeed_extends:
  "\<exists>es. trace (snd (fetchProverSpeed L W cfg a d dn s)) = trace s @ es"
proof -
  obtain r s1 where f: "fetchData L W (apiBaseURL cfg @ ''/api/v1/provers/prover_speed_list'')
      (speed_body a d) s = (r, s1)"
    by (cases "fetchData L W (apiBaseURL cfg @ ''/api/v1/provers/prover_speed_list'')
      (speed_body a d) s")
  from fetchData_extends [of L W "apiBaseURL cfg @ ''/api/v1/provers/prover_speed_list''"
      "speed_body a d" s] f
  obtain es where e: "trace s1 = trace s @ es" by auto
  show ?thesis
    using f e
    by (auto simp: fetchProverSpeed_def Let_def split_beta gauge_Set_def log_Printf_def emit_def
        speed_items_trace NewGauge_def Push_def tick_def
        dest!: MustRegister_trace split: sum.splits)
qed

lemma fetchProverReward_extends:
  "\<exists>es. trace (snd (fetchProverReward L W cfg a s)) = trace s @ es"
proof -
  obtain r s1 where f: "fetchData L W (apiBaseURL cfg @ ''/api/v1/provers/prover_reward_list'')
      (address_body a) s = (r, s1)"
    by (cases "fetchData L W (apiBaseURL cfg @ ''/api/v1/provers/prover_reward_list'')
      (address_body a) s")
  from fetchData_extends [of L W "apiBaseURL cfg @ ''/api/v1/provers/prover_reward_list''"
      "address_body a" s] f
  obtain es where e: "trace s1 = trace s @ es" by auto
  show ?thesis
    using f e
    by (auto simp: fetchProverReward_def Let_def split_beta gauge_Set_def log_Printf_def emit_def
        reward_items_trace NewGauge_def Push_def tick_def
        dest!: MustRegister_trace split: sum.splits)
qed

lemma fetchProverLatestHeight_extends:
  "\<exists>es. trace (snd (fetchProverLatestHeight L W cfg a s)) = trace s @ es"
proof -
  obtain r s1 where f: "fetchData L W (apiBaseURL cfg @ ''/api/v1/provers/prover_latest_height'')
      (address_body a) s = (r, s1)"
    by (cases "fetchData L W (apiBaseURL cfg @ ''/api/v1/provers/prover_latest_height'')
      (address_body a) s")
  from fetchData_extends [of L W "apiBaseURL cfg @ ''/api/v1/provers/prover_latest_height''"
      "address_body a" s] f
  obtain es where e: "trace s1 = trace s @ es" by auto
  show ?thesis
    using f e
    by (auto simp: fetchProverLatestHeight_def Let_def split_beta gauge_Set_def log_Printf_def
        emit_def height_items_trace NewGauge_def Push_def tick_def
        dest!: MustRegister_trace split: sum.splits)
qed

lemma fetchLatestBlock_extends:
  "\<exists>es. trace (snd (fetchLatestBlock L W cfg s)) = trace s @ es"
proof -
  obtain r s1 where f: "fetchData L W (apiBaseURL cfg @ ''/api/v1/chain/latest_block'') [] s
      = (r, s1)"
    by (cases "fetchData L W (apiBaseURL cfg @ ''/api/v1/chain/latest_block'') [] s")
  from fetchData_extends [of L W "apiBaseURL cfg @ ''/api/v1/chain/latest_block''" "[]" s] f
  obtain es where e: "trace s1 = trace s @ es" by auto
  show ?thesis
    using f e
    by (auto simp: fetchLatestBlock_def Let_def split_beta gauge_Set_def log_Printf_def
        emit_def NewGauge_def Push_def tick_def
        dest!: MustRegister_trace split: sum.splits)
qed

lemma durations_loop_extends:
  "\<exists>es. trace (snd (durations_loop L W cfg a ds s)) = trace s @ es"
proof (induction ds arbitrary: s)
  case Nil
  show ?case by simp
next
  case (Cons x ds)
  obtain dn d where x: "x = (dn, d)" by (cases x)
  let ?s0 = "log_Printf (''Fetching prover speed for address '' @ a
                @ '' and duration '' @ dn) s"
  obtain o1 s1 where f: "fetchProverSpeed L W cfg a d dn ?s0 = (o1, s1)"
    by (cases "fetchProverSpeed L W cfg a d dn ?s0")
  from fetchProverSpeed_extends [of L W cfg a d dn ?s0] f
  have e1: "\<exists>es. trace s1 = trace s @ es"
    by (auto simp: log_Printf_def emit_def)
  show ?case
  proof (cases o1)
    case (Panics p)
    with f e1 x show ?thesis by simp
  next
    case (Returns r)
    let ?s2 = "log_if_error (''Error fetching prover speed for address '' @ a
               @ '' and duration '' @ dn) r s1"
    from e1 log_if_error_extends [of _ r s1] have "\<exists>es. trace ?s2 = trace s @ es"
      by (metis append.assoc)
    with Cons.IH [of ?s2] have "\<exists>es. trace (snd (durations_loop L W cfg a ds ?s2)) = trace s @ es"
      by (metis append.assoc)
    with f Returns x show ?thesis by simp
  qed
qed

lemma addresses_loop_extends:
  "\<exists>es. trace (snd (addresses_loop L W cfg as s)) = trace s @ es"
proof (induction as arbitrary: s)
  case Nil
  show ?case by simp
next
  case (Cons a as)
  let ?ds = "range_order (map_seed W (clock s)) durations"
  obtain o1 s1 where f1: "durations_loop L W cfg a ?ds (tick s) = (o1, s1)"
    by (cases "durations_loop L W cfg a ?ds (tick s)")
  from durations_loop_extends [of L W cfg a ?ds "tick s"] f1
  have e1: "\<exists>es. trace s1 = trace s @ es" by (auto simp: tick_def)
  let ?s1' = "log_Printf (''Fetching prover reward for address '' @ a) s1"
  obtain o2 s2 where f2: "fetchProverReward L W cfg a ?s1' = (o2, s2)"
    by (cases "fetchProverReward L W cfg a ?s1'")
  from fetchProverReward_extends [of L W cfg a ?s1'] f2 e1
  have e2: "\<exists>es. trace s2 = trace s @ es" by (auto simp: log_Printf_def emit_def)
  show ?case
  proof (cases o1)
    case (Panics p)
    with f1 e1 show ?thesis by simp
  next
    case R1: (Returns u)
    show ?thesis
    proof (cases o2)
      case (Panics p)
      with f1 f2 R1 e2 show ?thesis by simp
    next
      case R2: (Returns r)
      let ?s2' = "log_Printf (''Fetching prover latest height for address '' @ a)
                (log_if_error (''Error fetching prover reward for address '' @ a) r s2)"
      obtain o3 s3 where f3: "fetchProverLatestHeight L W cfg a ?s2' = (o3, s3)"
        by (cases "fetchProverLatestHeight L W cfg a ?s2'")
      from log_if_error_extends [of "''Error fetching prover reward for address '' @ a" r s2] e2
      have "\<exists>es. trace ?s2' = trace s @ es" by (auto simp: log_Printf_def emit_def)
      with fetchProverLatestHeight_extends [of L W cfg a ?s2'] f3
      have e3: "\<exists>es. trace s3 = trace s @ es" by auto
      show ?thesis
      proof (cases o3)
        case (Panics p)
        with f1 f2 f3 R1 R2 e3 show ?thesis by simp
      next
        case R3: (Returns r')
        let ?s4 = "log_if_error (''Error fetching prover latest height for address '' @ a) r' s3"
        from e3 log_if_error_extends [of _ r' s3] have "\<exists>es. trace ?s4 = trace s @ es"
          by (metis append.assoc)
        with Cons.IH [of ?s4]
        have "\<exists>es. trace (snd (addresses_loop L W cfg as ?s4)) = trace s @ es"
          by (metis append.assoc)
        with f1 f2 f3 R1 R2 R3 show ?thesis by simp
      qed
    qed
  qed
qed

lemma fetchDataAndPush_extends:
  "\<exists>es. trace (snd (fetchDataAndPush L W cfg s)) = trace s @ es"
proof -
  let ?s0 = "log_Printf ''Fetching data and pushing to Pushgateway'' s"
  obtain o1 s1 where f1: "addresses_loop L W cfg (addresses cfg) ?s0 = (o1, s1)"
    by (cases "addresses_loop L W cfg (addresses cfg) ?s0")
  from addresses_loop_extends [of L W cfg "addresses cfg" ?s0] f1
  have e1: "\<exists>es. trace s1 = trace s @ es" by (auto simp: log_Printf_def emit_def)
  let ?s1' = "log_Printf ''Fetching latest block'' s1"
  obtain o2 s2 where f2: "fetchLatestBlock L W cfg ?s1' = (o2, s2)"
    by (cases "fetchLatestBlock L W cfg ?s1'")
  from fetchLatestBlock_extends [of L W cfg ?s1'] f2 e1
  have e2: "\<exists>es. trace s2 = trace s @ es" by (auto simp: log_Printf_def emit_def)
  show ?thesis
  proof (cases o1)
    case (Panics p)
    with f1 e1 show ?thesis by (simp add: fetchDataAndPush_def)
  next
    case R1: (Returns u)
    show ?thesis
    proof (cases o2)
      case (Panics p)
      with f1 f2 R1 e2 show ?thesis by (simp add: fetchDataAndPush_def)
    next
      case (Returns r)
      from e2 log_if_error_extends [of "''Error fetching latest block''" r s2]
      have "\<exists>es. trace (log_if_error ''Error fetching latest block'' r s2) = trace s @ es"
        by (metis append.assoc)
      with f1 f2 R1 Returns show ?thesis by (simp add: fetchDataAndPush_def)
    qed
  qed
qed

lemma ticker_loop_extends:
  "\<exists>es. trace (snd (ticker_loop L W cfg n s)) = trace s @ es"
proof (induction n arbitrary: s)
  case 0
  show ?case by simp
next
  case (Suc n)
  obtain o1 s1 where f: "fetchDataAndPush L W cfg s = (o1, s1)"
    by (cases "fetchDataAndPush L W cfg s")
  from fetchDataAndPush_extends [of L W cfg s] f
  have e1: "\<exists>es. trace s1 = trace s @ es" by auto
  show ?case
  proof (cases o1)
    case (Panics p)
    with f e1 show ?thesis by simp
  next
    case (Returns u)
    from e1 Suc.IH [of s1] have "\<exists>es. trace (snd (ticker_loop L W cfg n s1)) = trace s @ es"
      by (metis append.assoc)
    with f Returns show ?thesis by simp
  qed
qed

lemma sets_of_concat: "sets_of (concat xss) = concat (map sets_of xss)"
  by (induction xss) (auto simp: sets_of_append)

lemma pushes_of_concat: "pushes_of (concat xss) = concat (map pushes_of xss)"
  by (induction xss) (auto simp: pushes_of_append)

lemma concat_map_Nil: "(\<And>x. x \<in> set xs \<Longrightarrow> f x = []) \<Longrightarrow> concat (map f xs) = []"
  by (induction xs) auto

lemma fetchData_Inr:
  "fetchData L W url body s = (Inr data, s1) \<Longrightarrow>
     sets_of (trace s1) = sets_of (trace s) \<and> pushes_of (trace s1) = pushes_of (trace s) \<and>
     clock s1 = Suc (clock s)"
  by (auto simp: fetchData_cases Let_def sets_of_append pushes_of_append
      split: option.splits sum.splits)

lemma fetchProverSpeed_sets:
  assumes "fetchData L W (apiBaseURL cfg @ ''/api/v1/provers/prover_speed_list'')
             (speed_body a d) s = (Inr data, s1)"
      and "Unmarshal_speed L data = Inr result"
      and "fetchProverSpeed L W cfg a d dn s = (Returns r, s')"
  shows "sets_of (trace s') = sets_of (trace s) @
      concat (map (\<lambda>item.
        case parseFloat L (speed_Speed item) of
          Inl e \<Rightarrow> []
        | Inr v \<Rightarrow> [(\<lparr>fqName = ''prover_speed'', desc_help = ''Speed of the prover'',
                 constLabels = [(''address'', a), (''duration'', dn)]\<rparr>, v)]) (speed_List result))
      @ (case parseFloat L (speed_Total result) of
           Inl e \<Rightarrow> []
         | Inr t \<Rightarrow> [(\<lparr>fqName = ''total_speed'', desc_help = ''Total speed'',
                 constLabels = [(''duration'', dn)]\<rparr>, t)])"
  using fetchProverSpeed_returns [OF assms] fetchData_Inr [OF assms(1)]
  by (auto simp: sets_of_append sets_of_concat o_def sum.case_distrib [of sets_of]
      split: sum.splits intro!: arg_cong [of _ _ concat] cong: sum.case_cong)

lemma fetchProverSpeed_pushes:
  assumes "fetchData L W (apiBaseURL cfg @ ''/api/v1/provers/prover_speed_list'')
             (speed_body a d) s = (Inr data, s1)"
      and "Unmarshal_speed L data = Inr result"
      and "fetchProverSpeed L W cfg a d dn s = (Returns r, s')"
  shows "pushes_of (trace s') = pushes_of (trace s) @
      (case parseFloat L (speed_Total result) of
           Inl e \<Rightarrow> []
         | Inr t \<Rightarrow>
            [(pushgatewayURL cfg, ''prover_metrics'',
               [\<lparr>gauge_desc = \<lparr>fqName = ''prover_speed'', desc_help = ''Speed of the prover'',
                   constLabels = [(''address'', a), (''duration'', dn)]\<rparr>,
                 gauge_value = foldl (\<lambda>v item. case parseFloat L (speed_Speed item) of
                    Inl e \<Rightarrow> v | Inr v' \<Rightarrow> v') 0 (speed_List result)\<rparr>,
                \<lparr>gauge_desc = \<lparr>fqName = ''total_speed'', desc_help = ''Total speed'',
                   constLabels = [(''duration'', dn)]\<rparr>, gauge_value = t\<rparr>])])"
  using fetchProverSpeed_returns [OF assms] fetchData_Inr [OF assms(1)]
  by (auto simp: pushes_of_append pushes_of_concat o_def sum.case_distrib [of pushes_of]
      split: sum.splits intro!: concat_map_Nil)

lemma fetchProverReward_sets:
  assumes "fetchData L W (apiBaseURL cfg @ ''/api/v1/provers/prover_reward_list'')
             (address_body a) s = (Inr data, s1)"
      and "Unmarshal_reward L data = Inr result"
      and "fetchProverReward L W cfg a s = (Returns r, s')"
  shows "sets_of (trace s') = sets_of (trace s) @
      concat (map (\<lambda>item.
        case parseFloat L (reward_TotalReward item) of
          Inl e \<Rightarrow> []
        | Inr v \<Rightarrow> [(\<lparr>fqName = ''total_reward'', desc_help = ''Total reward of the prover'',
                 constLabels = [(''address'', a)]\<rparr>, v)]) (reward_List result))"
  using fetchProverReward_returns(1) [OF assms] fetchData_Inr [OF assms(1)]
  by (auto simp: sets_of_append sets_of_concat o_def sum.case_distrib [of sets_of]
      split: sum.splits intro!: arg_cong [of _ _ concat] cong: sum.case_cong)

lemma fetchProverReward_pushes:
  assumes "fetchData L W (apiBaseURL cfg @ ''/api/v1/provers/prover_reward_list'')
             (address_body a) s = (Inr data, s1)"
      and "Unmarshal_reward L data = Inr result"
      and "fetchProverReward L W cfg a s = (Returns r, s')"
  shows "pushes_of (trace s') = pushes_of (trace s) @
      [(pushgatewayURL cfg, ''prover_metrics'',
               [\<lparr>gauge_desc = \<lparr>fqName = ''total_reward'',
                   desc_help = ''Total reward of the prover'',
                   constLabels = [(''address'', a)]\<rparr>,
                 gauge_value = foldl (\<lambda>v item. case parseFloat L (reward_TotalReward item) of
                    Inl e \<Rightarrow> v | Inr v' \<Rightarrow> v') 0 (reward_List result)\<rparr>])]"
  using fetchProverReward_returns(1) [OF assms] fetchData_Inr [OF assms(1)]
  by (auto simp: pushes_of_append pushes_of_concat o_def sum.case_distrib [of pushes_of]
      split: sum.splits intro!: concat_map_Nil)

lemma fetchProverLatestHeight_sets:
  assumes "fetchData L W (apiBaseURL cfg @ ''/api/v1/provers/prover_latest_height'')
             (address_body a) s = (Inr data, s1)"
      and "Unmarshal_height L data = Inr result"
      and "fetchProverLatestHeight L W cfg a s = (Returns r, s')"
  shows "sets_of (trace s') = sets_of (trace s) @
      map (\<lambda>item. (\<lparr>fqName = ''prover_height'', desc_help = ''Height of the prover'',
                 constLabels = [(''address'', a)]\<rparr>, float64 L (height_Height item))) result"
  using fetchProverLatestHeight_returns(1) [OF assms] fetchData_Inr [OF assms(1)]
  by (auto simp: sets_of_append sets_of_concat o_def concat_map_singleton)

lemma fetchProverLatestHeight_pushes:
  assumes "fetchData L W (apiBaseURL cfg @ ''/api/v1/provers/prover_latest_height'')
             (address_body a) s = (Inr data, s1)"
      and "Unmarshal_height L data = Inr result"
      and "fetchProverLatestHeight L W cfg a s = (Returns r, s')"
  shows "pushes_of (trace s') = pushes_of (trace s) @
      [(pushgatewayURL cfg, ''prover_metrics'',
               [\<lparr>gauge_desc = \<lparr>fqName = ''prover_height'',
                   desc_help = ''Height of the prover'',
                   constLabels = [(''address'', a)]\<rparr>,
                 gauge_value = foldl (\<lambda>v item. float64 L (height_Height item)) 0 result\<rparr>])]"
  using fetchProverLatestHeight_returns(1) [OF assms] fetchData_Inr [OF assms(1)]
  by (auto simp: pushes_of_append pushes_of_concat o_def intro!: concat_map_Nil)

lemma fetchLatestBlock_sets:
  assumes "fetchData L W (apiBaseURL cfg @ ''/api/v1/chain/latest_block'') [] s = (Inr data, s1)"
      and "Unmarshal_block L data = Inr result"
      and "fetchLatestBlock L W cfg s = (Returns r, s')"
  shows "sets_of (trace s') = sets_of (trace s) @
      (\<lparr>fqName = ''latest_block_height'', desc_help = ''Height of the latest block'',
          constLabels = []\<rparr>, float64 L (block_Height result))
      # (case parseFloat L (block_ProofTarget result) of
           Inl e \<Rightarrow> []
         | Inr p \<Rightarrow>
            (\<lparr>fqName = ''proof_target'',
               desc_help = ''Proof target of the latest block'', constLabels = []\<rparr>, p)
            # (case parseFloat L (block_CoinbaseReward result) of
                 Inl e \<Rightarrow> []
               | Inr c \<Rightarrow>
                  [(\<lparr>fqName = ''coinbase_reward'',
                     desc_help = ''Coinbase reward of the latest block'', constLabels = []\<rparr>, c)]))"
  using fetchLatestBlock_returns(1) [OF assms] fetchData_Inr [OF assms(1)]
  by (auto simp: sets_of_append split: sum.splits)

lemma fetchLatestBlock_pushes:
  assumes "fetchData L W (apiBaseURL cfg @ ''/api/v1/chain/latest_block'') [] s = (Inr data, s1)"
      and "Unmarshal_block L data = Inr result"
      and "fetchLatestBlock L W cfg s = (Returns r, s')"
  shows "pushes_of (trace s') = pushes_of (trace s) @
      (case parseFloat L (block_ProofTarget result) of
           Inl e \<Rightarrow> []
         | Inr p \<Rightarrow>
            (case parseFloat L (block_CoinbaseReward result) of
                 Inl e \<Rightarrow> []
               | Inr c \<Rightarrow>
                  [(pushgatewayURL cfg, ''latest_block_metrics'',
                    [\<lparr>gauge_desc = \<lparr>fqName = ''latest_block_height'',
                        desc_help = ''Height of the latest block'', constLabels = []\<rparr>,
                      gauge_value = float64 L (block_Height result)\<rparr>,
                     \<lparr>gauge_desc = \<lparr>fqName = ''proof_target'',
                        desc_help = ''Proof target of the latest block'', constLabels = []\<rparr>,
                      gauge_value = p\<rparr>,
                     \<lparr>gauge_desc = \<lparr>fqName = ''coinbase_reward'',
                        desc_help = ''Coinbase reward of the latest block'', constLabels = []\<rparr>,
                      gauge_value = c\<rparr>])]))"
  using fetchLatestBlock_returns(1) [OF assms] fetchData_Inr [OF assms(1)]
  by (auto simp: pushes_of_append split: sum.splits)

lemma speed_items_sets:
  "sets_of (trace (snd (speed_items L dn items g s))) = sets_of (trace s) @
     concat (map (\<lambda>item.
        case parseFloat L (speed_Speed item) of
          Inl e \<Rightarrow> []
        | Inr v \<Rightarrow> [(gauge_desc g, v)]) items)"
  using speed_items_trace [OF refl, of L dn items g s]
  by (auto simp: sets_of_append sets_of_concat o_def sum.case_distrib [of sets_of]
      split: sum.splits intro!: arg_cong [of _ _ concat] cong: sum.case_cong)

lemma reward_items_sets:
  "sets_of (trace (snd (reward_items L items g s))) = sets_of (trace s) @
     concat (map (\<lambda>item.
        case parseFloat L (reward_TotalReward item) of
          Inl e \<Rightarrow> []
        | Inr v \<Rightarrow> [(gauge_desc g, v)]) items)"
  using reward_items_trace [OF refl, of L items g s]
  by (auto simp: sets_of_append sets_of_concat o_def sum.case_distrib [of sets_of]
      split: sum.splits intro!: arg_cong [of _ _ concat] cong: sum.case_cong)

lemma height_items_sets:
  "sets_of (trace (snd (height_items L items g s))) = sets_of (trace s) @
     map (\<lambda>item. (gauge_desc g, float64 L (height_Height item))) items"
  using height_items_trace [OF refl, of L items g s]
  by (auto simp: sets_of_append sets_of_concat o_def concat_map_singleton)

section \<open>The claims\<close>

text \<open>
  C9. \<open>fetchData\<close> does not look at the status code: whenever the request is created,
  the round trip succeeds and the body is read, it returns exactly the body, whatever
  the status; and an error it returns is the wrapped error of request creation, of the
  round trip or of reading the body.
\<close>

theorem fetchData_no_status_check:
  "(url_Parse L url = None \<and>
    client_Do W (clock s)
      \<lparr>req_method = ''POST'', req_url = url,
       req_header = [(''Content-Type'', ''application/json'')], req_body = body\<rparr>
      = Inr \<lparr>StatusCode = code, ReadAll = Inr data\<rparr>
    \<longrightarrow> fst (fetchData L W url body s) = Inr data) \<and>
   (fst (fetchData L W url body s) = Inl err \<longrightarrow>
      (\<exists>e. url_Parse L url = Some e \<and> err = Errorf ''could not create request'' e) \<or>
      (\<exists>e. client_Do W (clock s)
             \<lparr>req_method = ''POST'', req_url = url,
              req_header = [(''Content-Type'', ''application/json'')], req_body = body\<rparr> = Inl e
           \<and> err = Errorf ''could not fetch data'' e) \<or>
      (\<exists>resp e. client_Do W (clock s)
             \<lparr>req_method = ''POST'', req_url = url,
              req_header = [(''Content-Type'', ''application/json'')], req_body = body\<rparr> = Inr resp
           \<and> ReadAll resp = Inl e \<and> err = Errorf ''could not read response'' e))"
  by (auto simp: fetchData_cases Let_def split: option.splits sum.splits)

theorem fetchData_no_status_check_witness:
  "fst (fetchData api_lib api_world ''http://api/missing'' [] start) = Inr ''404 page not found'' \<and>
   fst (fetchData api_lib api_down ''http://api/missing'' [] start)
     = Inl (Errorf ''could not fetch data'' (Error ''connection refused''))"
  using fetchData_no_status_check [of api_lib "''http://api/missing''" api_world start "[]" 404
          "''404 page not found''"]
        fetchData_no_status_check [of api_lib "''http://api/missing''" api_down start "[]" 0
          "[]" "Errorf ''could not fetch data'' (Error ''connection refused'')"]
  by (simp add: fetchData_cases api_defs start_def)

text \<open>
  C7. Each fetch function issues at most one request, none when the URL does not parse,
  and it is a POST with the header \<open>Content-Type: application/json\<close> to the fixed path
  of its endpoint under the API base URL. The body of a speed request is
  \<open>{"address":["<address>"],"duration":<seconds>}\<close> with the seconds in decimal, that of
  a reward or height request is \<open>{"address":["<address>"]}\<close>, and that of the
  latest-block request is empty. The bytes read are handed to the decoder of the
  endpoint's struct: when it refuses them, the function returns its error, wrapped.
\<close>

theorem requests_have_the_fixed_shape:
  \<open>requests_of (trace (snd (fetchProverSpeed L W cfg a d dn s))) =
     requests_of (trace s) @
       (case url_Parse L (apiBaseURL cfg @ ''/api/v1/provers/prover_speed_list'') of
          Some e \<Rightarrow> []
        | None \<Rightarrow> [\<lparr>req_method = ''POST'',
                     req_url = apiBaseURL cfg @ ''/api/v1/provers/prover_speed_list'',
                     req_header = [(''Content-Type'', ''application/json'')],
                     req_body = ''{"address":["'' @ a @ ''"],"duration":'' @ Sprintf_d d @ ''}''\<rparr>]) \<and>
   requests_of (trace (snd (fetchProverReward L W cfg a s))) =
     requests_of (trace s) @
       (case url_Parse L (apiBaseURL cfg @ ''/api/v1/provers/prover_reward_list'') of
          Some e \<Rightarrow> []
        | None \<Rightarrow> [\<lparr>req_method = ''POST'',
                     req_url = apiBaseURL cfg @ ''/api/v1/provers/prover_reward_list'',
                     req_header = [(''Content-Type'', ''application/json'')],
                     req_body = ''{"address":["'' @ a @ ''"]}''\<rparr>]) \<and>
   requests_of (trace (snd (fetchProverLatestHeight L W cfg a s))) =
     requests_of (trace s) @
       (case url_Parse L (apiBaseURL cfg @ ''/api/v1/provers/prover_latest_height'') of
          Some e \<Rightarrow> []
        | None \<Rightarrow> [\<lparr>req_method = ''POST'',
                     req_url = apiBaseURL cfg @ ''/api/v1/provers/prover_latest_height'',
                     req_header = [(''Content-Type'', ''application/json'')],
                     req_body = ''{"address":["'' @ a @ ''"]}''\<rparr>]) \<and>
   requests_of (trace (snd (fetchLatestBlock L W cfg s))) =
     requests_of (trace s) @
       (case url_Parse L (apiBaseURL cfg @ ''/api/v1/chain/latest_block'') of
          Some e \<Rightarrow> []
        | None \<Rightarrow> [\<lparr>req_method = ''POST'',
                     req_url = apiBaseURL cfg @ ''/api/v1/chain/latest_block'',
                     req_header = [(''Content-Type'', ''application/json'')],
                     req_body = []\<rparr>]) \<and>
   map (\<lambda>(durationName, duration). Sprintf_d duration) durations
     = [''900'', ''3600'', ''43200'', ''86400''] \<and>
   (fst (fetchData L W (apiBaseURL cfg @ ''/api/v1/provers/prover_speed_list'')
          (speed_body a d) s) = Inr data \<and> Unmarshal_speed L data = Inl err
    \<longrightarrow> fst (fetchProverSpeed L W cfg a d dn s)
          = Returns (Some (Errorf ''could not unmarshal prover speed response'' err))) \<and>
   (fst (fetchData L W (apiBaseURL cfg @ ''/api/v1/provers/prover_reward_list'')
          (address_body a) s) = Inr data \<and> Unmarshal_reward L data = Inl err
    \<longrightarrow> fst (fetchProverReward L W cfg a s)
          = Returns (Some (Errorf ''could not unmarshal prover reward response'' err))) \<and>
   (fst (fetchData L W (apiBaseURL cfg @ ''/api/v1/provers/prover_latest_height'')
          (address_body a) s) = Inr data \<and> Unmarshal_height L data = Inl err
    \<longrightarrow> fst (fetchProverLatestHeight L W cfg a s)
          = Returns (Some (Errorf ''could not unmarshal prover latest height response'' err))) \<and>
   (fst (fetchData L W (apiBaseURL cfg @ ''/api/v1/chain/latest_block'') [] s) = Inr data \<and>
    Unmarshal_block L data = Inl err
    \<longrightarrow> fst (fetchLatestBlock L W cfg s)
          = Returns (Some (Errorf ''could not unmarshal latest block response'' err)))\<close>
proof (intro conjI impI; (elim conjE)?)
  show \<open>requests_of (trace (snd (fetchProverSpeed L W cfg a d dn s))) =
     requests_of (trace s) @
       (case url_Parse L (apiBaseURL cfg @ ''/api/v1/provers/prover_speed_list'') of
          Some e \<Rightarrow> []
        | None \<Rightarrow> [\<lparr>req_method = ''POST'',
                     req_url = apiBaseURL cfg @ ''/api/v1/provers/prover_speed_list'',
                     req_header = [(''Content-Type'', ''application/json'')],
                     req_body = ''{"address":["'' @ a @ ''"],"duration":'' @ Sprintf_d d @ ''}''\<rparr>])\<close>
    by (rule fetchProverSpeed_requests [unfolded speed_body_def])
  show \<open>requests_of (trace (snd (fetchProverReward L W cfg a s))) =
     requests_of (trace s) @
       (case url_Parse L (apiBaseURL cfg @ ''/api/v1/provers/prover_reward_list'') of
          Some e \<Rightarrow> []
        | None \<Rightarrow> [\<lparr>req_method = ''POST'',
                     req_url = apiBaseURL cfg @ ''/api/v1/provers/prover_reward_list'',
                     req_header = [(''Content-Type'', ''application/json'')],
                     req_body = ''{"address":["'' @ a @ ''"]}''\<rparr>])\<close>
    by (rule fetchProverReward_requests [unfolded address_body_def])
  show \<open>requests_of (trace (snd (fetchProverLatestHeight L W cfg a s))) =
     requests_of (trace s) @
       (case url_Parse L (apiBaseURL cfg @ ''/api/v1/provers/prover_latest_height'') of
          Some e \<Rightarrow> []
        | None \<Rightarrow> [\<lparr>req_method = ''POST'',
                     req_url = apiBaseURL cfg @ ''/api/v1/provers/prover_latest_height'',
                     req_header = [(''Content-Type'', ''application/json'')],
                     req_body = ''{"address":["'' @ a @ ''"]}''\<rparr>])\<close>
    by (rule fetchProverLatestHeight_requests [unfolded address_body_def])
  show \<open>requests_of (trace (snd (fetchLatestBlock L W cfg s))) =
     requests_of (trace s) @
       (case url_Parse L (apiBaseURL cfg @ ''/api/v1/chain/latest_block'') of
          Some e \<Rightarrow> []
        | None \<Rightarrow> [\<lparr>req_method = ''POST'',
                     req_url = apiBaseURL cfg @ ''/api/v1/chain/latest_block'',
                     req_header = [(''Content-Type'', ''application/json'')],
                     req_body = []\<rparr>])\<close>
    by (rule fetchLatestBlock_requests)
  show "map (\<lambda>(durationName, duration). Sprintf_d duration) durations
     = [''900'', ''3600'', ''43200'', ''86400'']"
    by (simp add: durations_def Sprintf_d_def dec_nat.simps)
next
  assume "fst (fetchData L W (apiBaseURL cfg @ ''/api/v1/provers/prover_speed_list'')
          (speed_body a d) s) = Inr data" "Unmarshal_speed L data = Inl err"
  then show "fst (fetchProverSpeed L W cfg a d dn s)
          = Returns (Some (Errorf ''could not unmarshal prover speed response'' err))"
    by (auto simp: fetchProverSpeed_def Let_def split: prod.splits sum.splits)
next
  assume "fst (fetchData L W (apiBaseURL cfg @ ''/api/v1/provers/prover_reward_list'')
          (address_body a) s) = Inr data" "Unmarshal_reward L data = Inl err"
  then show "fst (fetchProverReward L W cfg a s)
          = Returns (Some (Errorf ''could not unmarshal prover reward response'' err))"
    by (auto simp: fetchProverReward_def Let_def split: prod.splits sum.splits)
next
  assume "fst (fetchData L W (apiBaseURL cfg @ ''/api/v1/provers/prover_latest_height'')
          (address_body a) s) = Inr data" "Unmarshal_height L data = Inl err"
  then show "fst (fetchProverLatestHeight L W cfg a s)
          = Returns (Some (Errorf ''could not unmarshal prover latest height response'' err))"
    by (auto simp: fetchProverLatestHeight_def Let_def split: prod.splits sum.splits)
next
  assume "fst (fetchData L W (apiBaseURL cfg @ ''/api/v1/chain/latest_block'') [] s) = Inr data"
    "Unmarshal_block L data = Inl err"
  then show "fst (fetchLatestBlock L W cfg s)
          = Returns (Some (Errorf ''could not unmarshal latest block response'' err))"
    by (auto simp: fetchLatestBlock_def Let_def split: prod.splits sum.splits)
qed

theorem requests_have_the_fixed_shape_witness:
  "fst (fetchProverSpeed api_lib api_world wrong_base ''aleo1a'' 900 ''15m'' start)
     = Returns (Some (Errorf ''could not unmarshal prover speed response''
         (Error ''invalid character''))) \<and>
   fst (fetchProverReward api_lib api_world wrong_base ''aleo1a'' start)
     = Returns (Some (Errorf ''could not unmarshal prover reward response''
         (Error ''invalid character''))) \<and>
   fst (fetchProverLatestHeight api_lib api_world wrong_base ''aleo1a'' start)
     = Returns (Some (Errorf ''could not unmarshal prover latest height response''
         (Error ''invalid character''))) \<and>
   fst (fetchLatestBlock api_lib api_world wrong_base start)
     = Returns (Some (Errorf ''could not unmarshal latest block response''
         (Error ''invalid character''))) \<and>
   map req_url (requests_of (trace (snd (fetchLatestBlock api_lib api_world wrong_base start))))
     = [''http://api/v2/api/v1/chain/latest_block'']"
  using requests_have_the_fixed_shape [where L = api_lib and W = api_world and cfg = wrong_base
      and a = "''aleo1a''" and d = 900 and dn = "''15m''" and s = start
      and data = "''404 page not found''" and err = "Error ''invalid character''"]
  by (simp add: model_defs api_simps)

text \<open>
  C3, as the code has it. Each of the three list loops sets its gauge, item after item,
  to exactly the float \<open>parseFloat\<close> gives for the item's string (to \<open>float64\<close> of the
  item's integer in the height loop) and to nothing else. And in a fetch that decoded its
  response and was not cut short by a panic, the values the gauges are set to are, in
  order: for every list item whose \<open>speed\<close> (or \<open>total_reward\<close>) string \<open>parseFloat\<close>
  accepts, exactly the parsed float; for the total and for the proof target exactly the
  parsed float when \<open>parseFloat\<close> accepts the string; for the coinbase reward exactly
  the parsed float when \<open>parseFloat\<close> accepts its string and has accepted the proof
  target before it: \<open>fetchLatestBlock\<close> returns at a proof target that does not parse,
  before it reads the coinbase reward. The integer heights are set through the
  \<open>float64\<close> conversion and never go through \<open>parseFloat\<close>. Nothing else is set.
\<close>

theorem gauges_set_to_parsed_values:
  "sets_of (trace (snd (speed_items L dn speeds g s))) = sets_of (trace s) @
     concat (map (\<lambda>item.
        case parseFloat L (speed_Speed item) of
          Inl e \<Rightarrow> []
        | Inr v \<Rightarrow> [(gauge_desc g, v)]) speeds) \<and>
   sets_of (trace (snd (reward_items L rewards g s))) = sets_of (trace s) @
     concat (map (\<lambda>item.
        case parseFloat L (reward_TotalReward item) of
          Inl e \<Rightarrow> []
        | Inr v \<Rightarrow> [(gauge_desc g, v)]) rewards) \<and>
   sets_of (trace (snd (height_items L hs g s))) = sets_of (trace s) @
     map (\<lambda>item. (gauge_desc g, float64 L (height_Height item))) hs \<and>
   (fst (fetchData L W (apiBaseURL cfg @ ''/api/v1/provers/prover_speed_list'')
          (speed_body a d) s) = Inr data1 \<and>
    Unmarshal_speed L data1 = Inr speed \<and>
    fst (fetchProverSpeed L W cfg a d dn s) = Returns r1
    \<longrightarrow> sets_of (trace (snd (fetchProverSpeed L W cfg a d dn s))) = sets_of (trace s) @
      concat (map (\<lambda>item.
        case parseFloat L (speed_Speed item) of
          Inl e \<Rightarrow> []
        | Inr v \<Rightarrow> [(\<lparr>fqName = ''prover_speed'', desc_help = ''Speed of the prover'',
                 constLabels = [(''address'', a), (''duration'', dn)]\<rparr>, v)]) (speed_List speed))
      @ (case parseFloat L (speed_Total speed) of
           Inl e \<Rightarrow> []
         | Inr t \<Rightarrow> [(\<lparr>fqName = ''total_speed'', desc_help = ''Total speed'',
                 constLabels = [(''duration'', dn)]\<rparr>, t)])) \<and>
   (fst (fetchData L W (apiBaseURL cfg @ ''/api/v1/provers/prover_reward_list'')
          (address_body a) s) = Inr data2 \<and>
    Unmarshal_reward L data2 = Inr reward \<and>
    fst (fetchProverReward L W cfg a s) = Returns r2
    \<longrightarrow> sets_of (trace (snd (fetchProverReward L W cfg a s))) = sets_of (trace s) @
      concat (map (\<lambda>item.
        case parseFloat L (reward_TotalReward item) of
          Inl e \<Rightarrow> []
        | Inr v \<Rightarrow> [(\<lparr>fqName = ''total_reward'', desc_help = ''Total reward of the prover'',
                 constLabels = [(''address'', a)]\<rparr>, v)]) (reward_List reward))) \<and>
   (fst (fetchData L W (apiBaseURL cfg @ ''/api/v1/provers/prover_latest_height'')
          (address_body a) s) = Inr data3 \<and>
    Unmarshal_height L data3 = Inr heights \<and>
    fst (fetchProverLatestHeight L W cfg a s) = Returns r3
    \<longrightarrow> sets_of (trace (snd (fetchProverLatestHeight L W cfg a s))) = sets_of (trace s) @
      map (\<lambda>item. (\<lparr>fqName = ''prover_height'', desc_help = ''Height of the prover'',
                 constLabels = [(''address'', a)]\<rparr>, float64 L (height_Height item))) heights) \<and>
   (fst (fetchData L W (apiBaseURL cfg @ ''/api/v1/chain/latest_block'') [] s) = Inr data4 \<and>
    Unmarshal_block L data4 = Inr block \<and>
    fst (fetchLatestBlock L W cfg s) = Returns r4
    \<longrightarrow> sets_of (trace (snd (fetchLatestBlock L W cfg s))) = sets_of (trace s) @
      (\<lparr>fqName = ''latest_block_height'', desc_help = ''Height of the latest block'',
          constLabels = []\<rparr>, float64 L (block_Height block))
      # (case parseFloat L (block_ProofTarget block) of
           Inl e \<Rightarrow> []
         | Inr p \<Rightarrow>
            (\<lparr>fqName = ''proof_target'',
               desc_help = ''Proof target of the latest block'', constLabels = []\<rparr>, p)
            # (case parseFloat L (block_CoinbaseReward block) of
                 Inl e \<Rightarrow> []
               | Inr c \<Rightarrow>
                  [(\<lparr>fqName = ''coinbase_reward'',
                     desc_help = ''Coinbase reward of the latest block'', constLabels = []\<rparr>, c)])))"
proof (intro conjI impI; (elim conjE)?)
  show "sets_of (trace (snd (speed_items L dn speeds g s))) = sets_of (trace s) @
     concat (map (\<lambda>item.
        case parseFloat L (speed_Speed item) of
          Inl e \<Rightarrow> []
        | Inr v \<Rightarrow> [(gauge_desc g, v)]) speeds)"
    by (rule speed_items_sets)
  show "sets_of (trace (snd (reward_items L rewards g s))) = sets_of (trace s) @
     concat (map (\<lambda>item.
        case parseFloat L (reward_TotalReward item) of
          Inl e \<Rightarrow> []
        | Inr v \<Rightarrow> [(gauge_desc g, v)]) rewards)"
    by (rule reward_items_sets)
  show "sets_of (trace (snd (height_items L hs g s))) = sets_of (trace s) @
     map (\<lambda>item. (gauge_desc g, float64 L (height_Height item))) hs"
    by (rule height_items_sets)
next
  assume "fst (fetchData L W (apiBaseURL cfg @ ''/api/v1/provers/prover_speed_list'')
          (speed_body a d) s) = Inr data1"
    and "Unmarshal_speed L data1 = Inr speed"
    and "fst (fetchProverSpeed L W cfg a d dn s) = Returns r1"
  then show "sets_of (trace (snd (fetchProverSpeed L W cfg a d dn s))) = sets_of (trace s) @
      concat (map (\<lambda>item.
        case parseFloat L (speed_Speed item) of
          Inl e \<Rightarrow> []
        | Inr v \<Rightarrow> [(\<lparr>fqName = ''prover_speed'', desc_help = ''Speed of the prover'',
                 constLabels = [(''address'', a), (''duration'', dn)]\<rparr>, v)]) (speed_List speed))
      @ (case parseFloat L (speed_Total speed) of
           Inl e \<Rightarrow> []
         | Inr t \<Rightarrow> [(\<lparr>fqName = ''total_speed'', desc_help = ''Total speed'',
                 constLabels = [(''duration'', dn)]\<rparr>, t)])"
    by (intro fetchProverSpeed_sets [where ?s1.0 = "snd (fetchData L W
          (apiBaseURL cfg @ ''/api/v1/provers/prover_speed_list'') (speed_body a d) s)"
          and data = data1 and r = r1])
       (simp_all add: prod_eq_iff)
next
  assume "fst (fetchData L W (apiBaseURL cfg @ ''/api/v1/provers/prover_reward_list'')
          (address_body a) s) = Inr data2"
    and "Unmarshal_reward L data2 = Inr reward"
    and "fst (fetchProverReward L W cfg a s) = Returns r2"
  then show "sets_of (trace (snd (fetchProverReward L W cfg a s))) = sets_of (trace s) @
      concat (map (\<lambda>item.
        case parseFloat L (reward_TotalReward item) of
          Inl e \<Rightarrow> []
        | Inr v \<Rightarrow> [(\<lparr>fqName = ''total_reward'', desc_help = ''Total reward of the prover'',
                 constLabels = [(''address'', a)]\<rparr>, v)]) (reward_List reward))"
    by (intro fetchProverReward_sets [where ?s1.0 = "snd (fetchData L W
          (apiBaseURL cfg @ ''/api/v1/provers/prover_reward_list'') (address_body a) s)"
          and data = data2 and r = r2])
       (simp_all add: prod_eq_iff)
next
  assume "fst (fetchData L W (apiBaseURL cfg @ ''/api/v1/provers/prover_latest_height'')
          (address_body a) s) = Inr data3"
    and "Unmarshal_height L data3 = Inr heights"
    and "fst (fetchProverLatestHeight L W cfg a s) = Returns r3"
  then show "sets_of (trace (snd (fetchProverLatestHeight L W cfg a s))) = sets_of (trace s) @
      map (\<lambda>item. (\<lparr>fqName = ''prover_height'', desc_help = ''Height of the prover'',
                 constLabels = [(''address'', a)]\<rparr>, float64 L (height_Height item))) heights"
    by (intro fetchProverLatestHeight_sets [where ?s1.0 = "snd (fetchData L W
          (apiBaseURL cfg @ ''/api/v1/provers/prover_latest_height'') (address_body a) s)"
          and data = data3 and r = r3])
       (simp_all add: prod_eq_iff)
next
  assume "fst (fetchData L W (apiBaseURL cfg @ ''/api/v1/chain/latest_block'') [] s) = Inr data4"
    and "Unmarshal_block L data4 = Inr block"
    and "fst (fetchLatestBlock L W cfg s) = Returns r4"
  then show "sets_of (trace (snd (fetchLatestBlock L W cfg s))) = sets_of (trace s) @
      (\<lparr>fqName = ''latest_block_height'', desc_help = ''Height of the latest block'',
          constLabels = []\<rparr>, float64 L (block_Height block))
      # (case parseFloat L (block_ProofTarget block) of
           Inl e \<Rightarrow> []
         | Inr p \<Rightarrow>
            (\<lparr>fqName = ''proof_target'',
               desc_help = ''Proof target of the latest block'', constLabels = []\<rparr>, p)
            # (case parseFloat L (block_CoinbaseReward block) of
                 Inl e \<Rightarrow> []
               | Inr c \<Rightarrow>
                  [(\<lparr>fqName = ''coinbase_reward'',
                     desc_help = ''Coinbase reward of the latest block'', constLabels = []\<rparr>, c)]))"
    by (intro fetchLatestBlock_sets [where ?s1.0 = "snd (fetchData L W
          (apiBaseURL cfg @ ''/api/v1/chain/latest_block'') [] s)"
          and data = data4 and r = r4])
       (simp_all add: prod_eq_iff)
qed

theorem gauges_set_to_parsed_values_witness:
  "sets_of (trace (snd (fetchProverSpeed api_lib api_world one_address ''aleo1a'' 900 ''15m'' start)))
     = [(\<lparr>fqName = ''prover_speed'', desc_help = ''Speed of the prover'',
          constLabels = [(''address'', ''aleo1a''), (''duration'', ''15m'')]\<rparr>, 7),
        (\<lparr>fqName = ''total_speed'', desc_help = ''Total speed'',
          constLabels = [(''duration'', ''15m'')]\<rparr>, 9)] \<and>
   sets_of (trace (snd (fetchProverReward api_lib api_world one_address ''aleo1a'' start)))
     = [(\<lparr>fqName = ''total_reward'', desc_help = ''Total reward of the prover'',
          constLabels = [(''address'', ''aleo1a'')]\<rparr>, 3)] \<and>
   sets_of (trace (snd (fetchProverLatestHeight api_lib api_world one_address ''aleo1a'' start)))
     = [(\<lparr>fqName = ''prover_height'', desc_help = ''Height of the prover'',
          constLabels = [(''address'', ''aleo1a'')]\<rparr>, 100)] \<and>
   sets_of (trace (snd (fetchLatestBlock api_lib api_world one_address start)))
     = [(\<lparr>fqName = ''latest_block_height'', desc_help = ''Height of the latest block'',
          constLabels = []\<rparr>, 100),
        (\<lparr>fqName = ''proof_target'', desc_help = ''Proof target of the latest block'',
          constLabels = []\<rparr>, 5),
        (\<lparr>fqName = ''coinbase_reward'', desc_help = ''Coinbase reward of the latest block'',
          constLabels = []\<rparr>, 2)]"
  using gauges_set_to_parsed_values [where L = api_lib and W = api_world and cfg = one_address
      and a = "''aleo1a''" and d = 900 and dn = "''15m''" and s = start
      and ?data1.0 = speed_json and ?data2.0 = reward_json and ?data3.0 = height_json
      and ?data4.0 = block_json
      and speed = "\<lparr>speed_List = [\<lparr>speed_Address = ''aleo1a'', speed_Speed = ''7''\<rparr>],
             speed_Total = ''9''\<rparr>"
      and reward = "\<lparr>reward_List = [\<lparr>reward_Address = ''aleo1a'', reward_TotalReward = ''3''\<rparr>],
             reward_Total = ''3''\<rparr>"
      and heights = "[\<lparr>height_Address = ''aleo1a'', height_Height = 100\<rparr>]"
      and block = "\<lparr>block_Height = 100, block_ProofTarget = ''5'', block_CoinbaseReward = ''2''\<rparr>"
      and ?r1.0 = None and ?r2.0 = None and ?r3.0 = None and ?r4.0 = None
      and speeds = "[]" and rewards = "[]" and hs = "[]"
      and g = "NewGauge ''prover_speed'' ''Speed of the prover'' []"]
  by (simp add: model_defs api_simps)

text \<open>
  C3 as stated, "when parsing succeeds the gauge is set to exactly the parsed value",
  fails for the coinbase reward. The latest block answered is
  \<open>{"data":{"height":100,"coinbase_reward":"2"}}\<close>: the proof target is the empty
  string, which \<open>parseFloat\<close> refuses, and the coinbase reward is \<open>"2"\<close>, which it
  parses to 2. \<open>fetchLatestBlock\<close> sets the block height, logs the proof target and
  returns nil: the coinbase reward gauge is never set.
\<close>

theorem coinbase_reward_parses_but_is_not_set:
  "Unmarshal_block api_lib block_json_no_target =
     Inr \<lparr>block_Height = 100, block_ProofTarget = [], block_CoinbaseReward = ''2''\<rparr> \<and>
   parseFloat api_lib ''2'' = Inr 2 \<and>
   fst (fetchLatestBlock api_lib api_world_no_target one_address start) = Returns None \<and>
   sets_of (trace (snd (fetchLatestBlock api_lib api_world_no_target one_address start)))
     = [(\<lparr>fqName = ''latest_block_height'', desc_help = ''Height of the latest block'',
          constLabels = []\<rparr>, 100)]"
  by (simp add: model_defs api_simps)



text \<open>
  C5, as the code has it. A fetch that reaches its last statement pushes there, and the
  gauges it pushes carry the last values set. Once the response is decoded and the
  function is not cut short by a panic: \<open>fetchProverSpeed\<close> pushes
  \<open>prover_speed\<close> and \<open>total_speed\<close> under the job \<open>prover_metrics\<close> when the total
  parses, \<open>prover_speed\<close> carrying the last list value that parsed (0 when none did);
  \<open>fetchProverReward\<close> pushes \<open>total_reward\<close> and \<open>fetchProverLatestHeight\<close> pushes
  \<open>prover_height\<close> under \<open>prover_metrics\<close>, each carrying the last value set (0 when
  none was); \<open>fetchLatestBlock\<close> pushes \<open>latest_block_height\<close>, \<open>proof_target\<close> and
  \<open>coinbase_reward\<close> under \<open>latest_block_metrics\<close> when both strings parse. Each is the
  one push of its call.
\<close>

theorem push_at_the_last_statement:
  "(fst (fetchData L W (apiBaseURL cfg @ ''/api/v1/provers/prover_speed_list'')
          (speed_body a d) s) = Inr data1 \<and>
    Unmarshal_speed L data1 = Inr speed \<and>
    fst (fetchProverSpeed L W cfg a d dn s) = Returns r1 \<and>
    parseFloat L (speed_Total speed) = Inr t
    \<longrightarrow> pushes_of (trace (snd (fetchProverSpeed L W cfg a d dn s))) = pushes_of (trace s) @
      [(pushgatewayURL cfg, ''prover_metrics'',
         [\<lparr>gauge_desc = \<lparr>fqName = ''prover_speed'', desc_help = ''Speed of the prover'',
             constLabels = [(''address'', a), (''duration'', dn)]\<rparr>,
           gauge_value = foldl (\<lambda>v item. case parseFloat L (speed_Speed item) of
              Inl e \<Rightarrow> v | Inr v' \<Rightarrow> v') 0 (speed_List speed)\<rparr>,
          \<lparr>gauge_desc = \<lparr>fqName = ''total_speed'', desc_help = ''Total speed'',
             constLabels = [(''duration'', dn)]\<rparr>, gauge_value = t\<rparr>])]) \<and>
   (fst (fetchData L W (apiBaseURL cfg @ ''/api/v1/provers/prover_reward_list'')
          (address_body a) s) = Inr data2 \<and>
    Unmarshal_reward L data2 = Inr reward \<and>
    fst (fetchProverReward L W cfg a s) = Returns r2
    \<longrightarrow> pushes_of (trace (snd (fetchProverReward L W cfg a s))) = pushes_of (trace s) @
      [(pushgatewayURL cfg, ''prover_metrics'',
         [\<lparr>gauge_desc = \<lparr>fqName = ''total_reward'',
             desc_help = ''Total reward of the prover'',
             constLabels = [(''address'', a)]\<rparr>,
           gauge_value = foldl (\<lambda>v item. case parseFloat L (reward_TotalReward item) of
              Inl e \<Rightarrow> v | Inr v' \<Rightarrow> v') 0 (reward_List reward)\<rparr>])]) \<and>
   (fst (fetchData L W (apiBaseURL cfg @ ''/api/v1/provers/prover_latest_height'')
          (address_body a) s) = Inr data3 \<and>
    Unmarshal_height L data3 = Inr heights \<and>
    fst (fetchProverLatestHeight L W cfg a s) = Returns r3
    \<longrightarrow> pushes_of (trace (snd (fetchProverLatestHeight L W cfg a s))) = pushes_of (trace s) @
      [(pushgatewayURL cfg, ''prover_metrics'',
         [\<lparr>gauge_desc = \<lparr>fqName = ''prover_height'',
             desc_help = ''Height of the prover'',
             constLabels = [(''address'', a)]\<rparr>,
           gauge_value = foldl (\<lambda>v item. float64 L (height_Height item)) 0 heights\<rparr>])]) \<and>
   (fst (fetchData L W (apiBaseURL cfg @ ''/api/v1/chain/latest_block'') [] s) = Inr data4 \<and>
    Unmarshal_block L data4 = Inr block \<and>
    fst (fetchLatestBlock L W cfg s) = Returns r4 \<and>
    parseFloat L (block_ProofTarget block) = Inr p \<and>
    parseFloat L (block_CoinbaseReward block) = Inr c
    \<longrightarrow> pushes_of (trace (snd (fetchLatestBlock L W cfg s))) = pushes_of (trace s) @
      [(pushgatewayURL cfg, ''latest_block_metrics'',
        [\<lparr>gauge_desc = \<lparr>fqName = ''latest_block_height'',
            desc_help = ''Height of the latest block'', constLabels = []\<rparr>,
          gauge_value = float64 L (block_Height block)\<rparr>,
         \<lparr>gauge_desc = \<lparr>fqName = ''proof_target'',
            desc_help = ''Proof target of the latest block'', constLabels = []\<rparr>,
          gauge_value = p\<rparr>,
         \<lparr>gauge_desc = \<lparr>fqName = ''coinbase_reward'',
            desc_help = ''Coinbase reward of the latest block'', constLabels = []\<rparr>,
          gauge_value = c\<rparr>])])"
proof (intro conjI impI; elim conjE)
  assume h: "fst (fetchData L W (apiBaseURL cfg @ ''/api/v1/provers/prover_speed_list'')
          (speed_body a d) s) = Inr data1"
    "Unmarshal_speed L data1 = Inr speed"
    "fst (fetchProverSpeed L W cfg a d dn s) = Returns r1"
    and t: "parseFloat L (speed_Total speed) = Inr t"
  have "fetchData L W (apiBaseURL cfg @ ''/api/v1/provers/prover_speed_list'')
          (speed_body a d) s = (Inr data1, snd (fetchData L W
            (apiBaseURL cfg @ ''/api/v1/provers/prover_speed_list'') (speed_body a d) s))"
    and "fetchProverSpeed L W cfg a d dn s = (Returns r1, snd (fetchProverSpeed L W cfg a d dn s))"
    using h by (simp_all add: prod_eq_iff)
  from fetchProverSpeed_pushes [OF this(1) h(2) this(2)] t
  show "pushes_of (trace (snd (fetchProverSpeed L W cfg a d dn s))) = pushes_of (trace s) @
      [(pushgatewayURL cfg, ''prover_metrics'',
         [\<lparr>gauge_desc = \<lparr>fqName = ''prover_speed'', desc_help = ''Speed of the prover'',
             constLabels = [(''address'', a), (''duration'', dn)]\<rparr>,
           gauge_value = foldl (\<lambda>v item. case parseFloat L (speed_Speed item) of
              Inl e \<Rightarrow> v | Inr v' \<Rightarrow> v') 0 (speed_List speed)\<rparr>,
          \<lparr>gauge_desc = \<lparr>fqName = ''total_speed'', desc_help = ''Total speed'',
             constLabels = [(''duration'', dn)]\<rparr>, gauge_value = t\<rparr>])]"
    by simp
next
  assume h: "fst (fetchData L W (apiBaseURL cfg @ ''/api/v1/provers/prover_reward_list'')
          (address_body a) s) = Inr data2"
    "Unmarshal_reward L data2 = Inr reward"
    "fst (fetchProverReward L W cfg a s) = Returns r2"
  have "fetchData L W (apiBaseURL cfg @ ''/api/v1/provers/prover_reward_list'')
          (address_body a) s = (Inr data2, snd (fetchData L W
            (apiBaseURL cfg @ ''/api/v1/provers/prover_reward_list'') (address_body a) s))"
    and "fetchProverReward L W cfg a s = (Returns r2, snd (fetchProverReward L W cfg a s))"
    using h by (simp_all add: prod_eq_iff)
  from fetchProverReward_pushes [OF this(1) h(2) this(2)]
  show "pushes_of (trace (snd (fetchProverReward L W cfg a s))) = pushes_of (trace s) @
      [(pushgatewayURL cfg, ''prover_metrics'',
         [\<lparr>gauge_desc = \<lparr>fqName = ''total_reward'',
             desc_help = ''Total reward of the prover'',
             constLabels = [(''address'', a)]\<rparr>,
           gauge_value = foldl (\<lambda>v item. case parseFloat L (reward_TotalReward item) of
              Inl e \<Rightarrow> v | Inr v' \<Rightarrow> v') 0 (reward_List reward)\<rparr>])]"
    by simp
next
  assume h: "fst (fetchData L W (apiBaseURL cfg @ ''/api/v1/provers/prover_latest_height'')
          (address_body a) s) = Inr data3"
    "Unmarshal_height L data3 = Inr heights"
    "fst (fetchProverLatestHeight L W cfg a s) = Returns r3"
  have "fetchData L W (apiBaseURL cfg @ ''/api/v1/provers/prover_latest_height'')
          (address_body a) s = (Inr data3, snd (fetchData L W
            (apiBaseURL cfg @ ''/api/v1/provers/prover_latest_height'') (address_body a) s))"
    and "fetchProverLatestHeight L W cfg a s
          = (Returns r3, snd (fetchProverLatestHeight L W cfg a s))"
    using h by (simp_all add: prod_eq_iff)
  from fetchProverLatestHeight_pushes [OF this(1) h(2) this(2)]
  show "pushes_of (trace (snd (fetchProverLatestHeight L W cfg a s))) = pushes_of (trace s) @
      [(pushgatewayURL cfg, ''prover_metrics'',
         [\<lparr>gauge_desc = \<lparr>fqName = ''prover_height'',
             desc_help = ''Height of the prover'',
             constLabels = [(''address'', a)]\<rparr>,
           gauge_value = foldl (\<lambda>v item. float64 L (height_Height item)) 0 heights\<rparr>])]"
    by simp
next
  assume h: "fst (fetchData L W (apiBaseURL cfg @ ''/api/v1/chain/latest_block'') [] s) = Inr data4"
    "Unmarshal_block L data4 = Inr block"
    "fst (fetchLatestBlock L W cfg s) = Returns r4"
    and p: "parseFloat L (block_ProofTarget block) = Inr p"
      "parseFloat L (block_CoinbaseReward block) = Inr c"
  have "fetchData L W (apiBaseURL cfg @ ''/api/v1/chain/latest_block'') [] s
          = (Inr data4, snd (fetchData L W (apiBaseURL cfg @ ''/api/v1/chain/latest_block'') [] s))"
    and "fetchLatestBlock L W cfg s = (Returns r4, snd (fetchLatestBlock L W cfg s))"
    using h by (simp_all add: prod_eq_iff)
  from fetchLatestBlock_pushes [OF this(1) h(2) this(2)] p
  show "pushes_of (trace (snd (fetchLatestBlock L W cfg s))) = pushes_of (trace s) @
      [(pushgatewayURL cfg, ''latest_block_metrics'',
        [\<lparr>gauge_desc = \<lparr>fqName = ''latest_block_height'',
            desc_help = ''Height of the latest block'', constLabels = []\<rparr>,
          gauge_value = float64 L (block_Height block)\<rparr>,
         \<lparr>gauge_desc = \<lparr>fqName = ''proof_target'',
            desc_help = ''Proof target of the latest block'', constLabels = []\<rparr>,
          gauge_value = p\<rparr>,
         \<lparr>gauge_desc = \<lparr>fqName = ''coinbase_reward'',
            desc_help = ''Coinbase reward of the latest block'', constLabels = []\<rparr>,
          gauge_value = c\<rparr>])]"
    by simp
qed

theorem push_at_the_last_statement_witness:
  "pushes_of (trace (snd (fetchProverSpeed api_lib api_world one_address ''aleo1a'' 900 ''15m'' start)))
     = [(''http://pushgateway:9091'', ''prover_metrics'',
         [\<lparr>gauge_desc = \<lparr>fqName = ''prover_speed'', desc_help = ''Speed of the prover'',
             constLabels = [(''address'', ''aleo1a''), (''duration'', ''15m'')]\<rparr>,
           gauge_value = 7\<rparr>,
          \<lparr>gauge_desc = \<lparr>fqName = ''total_speed'', desc_help = ''Total speed'',
             constLabels = [(''duration'', ''15m'')]\<rparr>, gauge_value = 9\<rparr>])] \<and>
   pushes_of (trace (snd (fetchProverReward api_lib api_world one_address ''aleo1a'' start)))
     = [(''http://pushgateway:9091'', ''prover_metrics'',
         [\<lparr>gauge_desc = \<lparr>fqName = ''total_reward'',
             desc_help = ''Total reward of the prover'',
             constLabels = [(''address'', ''aleo1a'')]\<rparr>, gauge_value = 3\<rparr>])] \<and>
   pushes_of (trace (snd (fetchProverLatestHeight api_lib api_world one_address ''aleo1a'' start)))
     = [(''http://pushgateway:9091'', ''prover_metrics'',
         [\<lparr>gauge_desc = \<lparr>fqName = ''prover_height'', desc_help = ''Height of the prover'',
             constLabels = [(''address'', ''aleo1a'')]\<rparr>, gauge_value = 100\<rparr>])] \<and>
   pushes_of (trace (snd (fetchLatestBlock api_lib api_world one_address start)))
     = [(''http://pushgateway:9091'', ''latest_block_metrics'',
        [\<lparr>gauge_desc = \<lparr>fqName = ''latest_block_height'',
            desc_help = ''Height of the latest block'', constLabels = []\<rparr>, gauge_value = 100\<rparr>,
         \<lparr>gauge_desc = \<lparr>fqName = ''proof_target'',
            desc_help = ''Proof target of the latest block'', constLabels = []\<rparr>, gauge_value = 5\<rparr>,
         \<lparr>gauge_desc = \<lparr>fqName = ''coinbase_reward'',
            desc_help = ''Coinbase reward of the latest block'', constLabels = []\<rparr>,
          gauge_value = 2\<rparr>])]"
  using push_at_the_last_statement [where L = api_lib and W = api_world and cfg = one_address
      and a = "''aleo1a''" and d = 900 and dn = "''15m''" and s = start
      and ?data1.0 = speed_json and ?data2.0 = reward_json and ?data3.0 = height_json
      and ?data4.0 = block_json
      and speed = "\<lparr>speed_List = [\<lparr>speed_Address = ''aleo1a'', speed_Speed = ''7''\<rparr>],
             speed_Total = ''9''\<rparr>"
      and reward = "\<lparr>reward_List = [\<lparr>reward_Address = ''aleo1a'', reward_TotalReward = ''3''\<rparr>],
             reward_Total = ''3''\<rparr>"
      and heights = "[\<lparr>height_Address = ''aleo1a'', height_Height = 100\<rparr>]"
      and block = "\<lparr>block_Height = 100, block_ProofTarget = ''5'', block_CoinbaseReward = ''2''\<rparr>"
      and ?r1.0 = None and ?r2.0 = None and ?r3.0 = None and ?r4.0 = None
      and t = 9 and p = 5 and c = 2]
  by (simp add: model_defs api_simps)

text \<open>
  C5 as stated fails: the API answers with a list whose speed parses and no total. The
  call parses 7, sets the gauge to it, returns nil, and pushes nothing.
\<close>

theorem parsed_speed_never_pushed:
  "fst (fetchProverSpeed api_lib api_world_no_total one_address ''aleo1a'' 900 ''15m'' start)
     = Returns None \<and>
   sets_of (trace (snd (fetchProverSpeed api_lib api_world_no_total one_address ''aleo1a'' 900
     ''15m'' start)))
     = [(\<lparr>fqName = ''prover_speed'', desc_help = ''Speed of the prover'',
          constLabels = [(''address'', ''aleo1a''), (''duration'', ''15m'')]\<rparr>, 7)] \<and>
   pushes_of (trace (snd (fetchProverSpeed api_lib api_world_no_total one_address ''aleo1a'' 900
     ''15m'' start))) = []"
  by (simp add: model_defs api_simps)

lemma ticker_loop_not_Fatal: "fst (ticker_loop L W cfg n s) \<noteq> Fatal"
  by (induction n arbitrary: s) (auto split: prod.splits outcome.splits)

text \<open>
  C8. With no address, \<open>main\<close> logs "No addresses provided" and exits fatally, having
  sent no request and pushed nothing. With at least one address it does not exit that
  way, and everything the first fetch-and-push cycle does happens: the trace of the run
  starts with "Starting prover monitor" followed by the whole trace of that cycle.
\<close>

theorem main_needs_an_address:
  "(addresses cfg = [] \<longrightarrow>
      main L W cfg ticks s = (Fatal, s\<lparr>trace := trace s @ [Log ''No addresses provided'']\<rparr>) \<and>
      requests_of (trace (snd (main L W cfg ticks s))) = requests_of (trace s) \<and>
      pushes_of (trace (snd (main L W cfg ticks s))) = pushes_of (trace s)) \<and>
   (addresses cfg \<noteq> [] \<longrightarrow>
      fst (main L W cfg ticks s) \<noteq> Fatal \<and>
      (\<exists>es. trace (snd (main L W cfg ticks s)) =
         trace (snd (fetchDataAndPush L W cfg
           (s\<lparr>trace := trace s @ [Log ''Starting prover monitor'']\<rparr>))) @ es))"
proof (intro conjI impI)
  assume e: "addresses cfg = []"
  then show "main L W cfg ticks s = (Fatal, s\<lparr>trace := trace s @ [Log ''No addresses provided'']\<rparr>)"
    by (simp add: main_def log_Printf_def emit_def)
  then show "requests_of (trace (snd (main L W cfg ticks s))) = requests_of (trace s)"
    and "pushes_of (trace (snd (main L W cfg ticks s))) = pushes_of (trace s)"
    by (simp_all add: requests_of_append pushes_of_append)
next
  assume n: "addresses cfg \<noteq> []"
  let ?s0 = "s\<lparr>trace := trace s @ [Log ''Starting prover monitor'']\<rparr>"
  obtain o1 s1 where f: "fetchDataAndPush L W cfg ?s0 = (o1, s1)"
    by (cases "fetchDataAndPush L W cfg ?s0")
  show "fst (main L W cfg ticks s) \<noteq> Fatal"
    using n f ticker_loop_not_Fatal [of L W cfg ticks s1]
    by (cases o1) (auto simp: main_def log_Printf_def emit_def)
  show "\<exists>es. trace (snd (main L W cfg ticks s)) = trace (snd (fetchDataAndPush L W cfg ?s0)) @ es"
    using n f ticker_loop_extends [of L W cfg ticks s1]
    by (cases o1) (auto simp: main_def log_Printf_def emit_def)
qed

theorem main_needs_an_address_witness:
  "main api_lib api_world no_addresses 3 start
     = (Fatal, \<lparr>clock = 0, registry = [], trace = [Log ''No addresses provided'']\<rparr>) \<and>
   fst (main api_lib api_down one_address 1 start) = Running \<and>
   take 2 (logs_of (trace (snd (main api_lib api_down one_address 1 start))))
     = [''Starting prover monitor'', ''Fetching data and pushing to Pushgateway'']"
  using main_needs_an_address [of no_addresses api_lib api_world 3 start]
        main_needs_an_address [of one_address api_lib api_down 1 start]
  by (simp add: model_defs api_simps)

lemma fetchData_registry: "registry (snd (fetchData L W url body s)) = registry s"
  by (auto simp: fetchData_cases Let_def split: option.splits sum.splits)

lemma Register_registered: "list_ex (same_id d) r \<Longrightarrow> \<exists>p. Register L d r = Inl p"
  by (simp add: Register_def)

lemma Register_Inr: "Register L d r = Inr r' \<Longrightarrow> r' = r @ [d]"
  by (auto simp: Register_def split: if_splits)

lemma fetchProverSpeed_registry:
  assumes "fetchData L W (apiBaseURL cfg @ ''/api/v1/provers/prover_speed_list'')
             (speed_body a d) s = (Inr data, s1)"
      and "Unmarshal_speed L data = Inr result"
      and "fetchProverSpeed L W cfg a d dn s = (Returns r, s')"
  shows "registry s' = registry s @
      [\<lparr>fqName = ''prover_speed'', desc_help = ''Speed of the prover'',
         constLabels = [(''address'', a), (''duration'', dn)]\<rparr>,
       \<lparr>fqName = ''total_speed'', desc_help = ''Total speed'',
         constLabels = [(''duration'', dn)]\<rparr>]"
  using assms fetchData_registry [of L W "apiBaseURL cfg @ ''/api/v1/provers/prover_speed_list''"
      "speed_body a d" s]
  apply (simp add: fetchProverSpeed_def Let_def split_beta split: sum.splits)
  apply (auto dest!: MustRegister_Inr Register_Inr simp: speed_items_frame NewGauge_def
      gauge_Set_def log_Printf_def emit_def tick_def Push_def split: sum.splits)
  done

text \<open>
  The registration defect, in general: a pair of address and duration name can be
  fetched once in the life of the process. When a call of \<open>fetchProverSpeed\<close> has
  decoded its response and returned, every later call with the same address and the same
  duration name that decodes its response panics, whatever was registered in between.
\<close>

lemma fetchProverSpeed_only_once:
  assumes "fetchData L W (apiBaseURL cfg @ ''/api/v1/provers/prover_speed_list'')
             (speed_body a d) s = (Inr data, s1)"
      and "Unmarshal_speed L data = Inr result"
      and "fetchProverSpeed L W cfg a d dn s = (Returns r, s')"
      and "registry t = registry s' @ later"
      and "fetchData L W (apiBaseURL cfg @ ''/api/v1/provers/prover_speed_list'')
             (speed_body a d') t = (Inr data', t1)"
      and "Unmarshal_speed L data' = Inr result'"
  shows "\<exists>p. fst (fetchProverSpeed L W cfg a d' dn t) = Panics p"
proof -
  let ?d = "\<lparr>fqName = ''prover_speed'', desc_help = ''Speed of the prover'',
         constLabels = [(''address'', a), (''duration'', dn)]\<rparr>"
  from fetchProverSpeed_registry [OF assms(1-3)] assms(4)
  have "list_ex (same_id ?d) (registry t)"
    by (simp add: same_id_def)
  moreover have "registry t1 = registry t"
    using fetchData_registry [of L W "apiBaseURL cfg @ ''/api/v1/provers/prover_speed_list''"
      "speed_body a d'" t] assms(5) by simp
  ultimately obtain p where "Register L ?d (registry t1) = Inl p"
    using Register_registered [of ?d "registry t1" L] by auto
  with assms(5,6) show ?thesis
    by (simp add: fetchProverSpeed_def Let_def MustRegister_def NewGauge_def)
qed

lemma first_cycle:
  "(case fetchDataAndPush api_lib api_world one_address
           (log_Printf ''Starting prover monitor'' start) of
      (out, s) \<Rightarrow>
        out = Returns () \<and> registry s = registered_once \<and>
        map (\<lambda>(u, j, gs). (j, map (fqName \<circ> gauge_desc) gs, map gauge_value gs))
            (pushes_of (trace s))
          = [(''prover_metrics'', [''prover_speed'', ''total_speed''], [7, 9]),
             (''prover_metrics'', [''prover_speed'', ''total_speed''], [7, 9]),
             (''prover_metrics'', [''prover_speed'', ''total_speed''], [7, 9]),
             (''prover_metrics'', [''prover_speed'', ''total_speed''], [7, 9]),
             (''prover_metrics'', [''total_reward''], [3]),
             (''prover_metrics'', [''prover_height''], [100]),
             (''latest_block_metrics'',
                [''latest_block_height'', ''proof_target'', ''coinbase_reward''], [100, 5, 2])])"
  by (simp add: model_defs api_simps registered_once_def)

lemma later_cycle:
  "registry s = registered_once \<Longrightarrow>
     (case fetchDataAndPush api_lib api_world one_address s of
        (out, s') \<Rightarrow>
          out = Panics (Error ''duplicate metrics collector registration attempted'') \<and>
          pushes_of (trace s') = pushes_of (trace s) \<and>
          map req_url (requests_of (trace s')) =
            map req_url (requests_of (trace s)) @ [''http://api/api/v1/provers/prover_speed_list''])"
  by (simp add: model_defs api_simps pushes_of_append requests_of_append registered_once_def)

text \<open>
  C1 fails on the code. One address, an API that answers every request: the first cycle
  runs to its end; the cycle of the first tick asks for the speed again, makes a new
  \<open>prover_speed\<close> gauge with the labels of the one registered in the first cycle, and
  \<open>MustRegister\<close> panics. The process is gone after one tick.
\<close>

theorem second_cycle_panics:
  "fst (main api_lib api_world one_address 0 start) = Running \<and>
   fst (main api_lib api_world one_address 1 start)
     = Panicked (Error ''duplicate metrics collector registration attempted'')"
proof -
  obtain out s1 where f: "fetchDataAndPush api_lib api_world one_address
      (log_Printf ''Starting prover monitor'' start) = (out, s1)"
    by (cases "fetchDataAndPush api_lib api_world one_address
      (log_Printf ''Starting prover monitor'' start)")
  from first_cycle f have o: "out = Returns ()" and r: "registry s1 = registered_once"
    by simp_all
  obtain out2 s2 where g: "fetchDataAndPush api_lib api_world one_address s1 = (out2, s2)"
    by (cases "fetchDataAndPush api_lib api_world one_address s1")
  from later_cycle [OF r] g
  have "out2 = Panics (Error ''duplicate metrics collector registration attempted'')"
    by simp
  with f g o show ?thesis
    by (simp add: main_def config_simps)
qed

text \<open>
  C6 fails on the code. The same configuration, the same API answering the same way:
  the first cycle issues seven requests and seven pushes; the second, started in the
  state the first one left, panics at its first registration and pushes nothing. What a
  cycle does depends on the registry the earlier cycles filled.
\<close>

theorem cycles_depend_on_the_registry:
  "(case fetchDataAndPush api_lib api_world one_address
           (log_Printf ''Starting prover monitor'' start) of
      (out1, s1) \<Rightarrow>
        (case fetchDataAndPush api_lib api_world one_address s1 of
           (out2, s2) \<Rightarrow>
             out1 = Returns () \<and>
             map (\<lambda>(u, j, gs). (j, map (fqName \<circ> gauge_desc) gs, map gauge_value gs))
                 (pushes_of (trace s1))
               = [(''prover_metrics'', [''prover_speed'', ''total_speed''], [7, 9]),
                  (''prover_metrics'', [''prover_speed'', ''total_speed''], [7, 9]),
                  (''prover_metrics'', [''prover_speed'', ''total_speed''], [7, 9]),
                  (''prover_metrics'', [''prover_speed'', ''total_speed''], [7, 9]),
                  (''prover_metrics'', [''total_reward''], [3]),
                  (''prover_metrics'', [''prover_height''], [100]),
                  (''latest_block_metrics'',
                     [''latest_block_height'', ''proof_target'', ''coinbase_reward''],
                     [100, 5, 2])] \<and>
             out2 = Panics (Error ''duplicate metrics collector registration attempted'') \<and>
             pushes_of (trace s2) = pushes_of (trace s1)))"
proof -
  obtain out s1 where f: "fetchDataAndPush api_lib api_world one_address
      (log_Printf ''Starting prover monitor'' start) = (out, s1)"
    by (cases "fetchDataAndPush api_lib api_world one_address
      (log_Printf ''Starting prover monitor'' start)")
  from first_cycle f have r: "registry s1 = registered_once"
    by simp
  obtain out2 s2 where g: "fetchDataAndPush api_lib api_world one_address s1 = (out2, s2)"
    by (cases "fetchDataAndPush api_lib api_world one_address s1")
  from first_cycle later_cycle [OF r] f g show ?thesis
    by simp
qed

text \<open>
  C2 fails on the code. Two addresses, the same API: the four speed queries, the reward
  query and the height query of the first address are issued; the first speed query of
  the second address makes a \<open>total_speed\<close> gauge whose only label is the duration, as
  the first address did, and \<open>MustRegister\<close> panics. The other queries of the second
  address and the latest-block query are never issued.
\<close>

theorem second_address_panics:
  \<open>(case fetchDataAndPush api_lib api_world two_addresses start of
      (out, s) \<Rightarrow>
        out = Panics (Error ''duplicate metrics collector registration attempted'') \<and>
        map (\<lambda>r. (req_url r, req_body r)) (requests_of (trace s)) =
          [(''http://api/api/v1/provers/prover_speed_list'',
              ''{"address":["aleo1a"],"duration":900}''),
           (''http://api/api/v1/provers/prover_speed_list'',
              ''{"address":["aleo1a"],"duration":3600}''),
           (''http://api/api/v1/provers/prover_speed_list'',
              ''{"address":["aleo1a"],"duration":43200}''),
           (''http://api/api/v1/provers/prover_speed_list'',
              ''{"address":["aleo1a"],"duration":86400}''),
           (''http://api/api/v1/provers/prover_reward_list'', ''{"address":["aleo1a"]}''),
           (''http://api/api/v1/provers/prover_latest_height'', ''{"address":["aleo1a"]}''),
           (''http://api/api/v1/provers/prover_speed_list'',
              ''{"address":["aleo1b"],"duration":900}'')])\<close>
  by (simp add: model_defs api_simps)

lemma digit_nth: "k < 10 \<Longrightarrow> is_digit (''0123456789'' ! k)"
proof -
  assume "k < 10"
  then have "k \<in> {0, 1, 2, 3, 4, 5, 6, 7, 8, 9}" by auto
  then show ?thesis by (auto simp: is_digit_def)
qed

lemma digit_nth_nonzero: "0 < k \<Longrightarrow> k < 10 \<Longrightarrow> ''0123456789'' ! k \<noteq> CHR ''0''"
proof -
  assume "0 < k" "k < 10"
  then have "k \<in> {1, 2, 3, 4, 5, 6, 7, 8, 9}" by auto
  then show ?thesis by auto
qed

lemma dec_nat_small: "n < 10 \<Longrightarrow> dec_nat n = [''0123456789'' ! n]"
  by (subst dec_nat.simps) (simp only: if_True)

lemma dec_nat_large:
  "\<not> n < 10 \<Longrightarrow> dec_nat n = dec_nat (n div 10) @ [''0123456789'' ! (n mod 10)]"
  by (subst dec_nat.simps) (simp only: if_False)

lemma dec_nat_leading:
  "0 < n \<Longrightarrow> \<exists>c cs. dec_nat n = c # cs \<and> is_digit c \<and> c \<noteq> CHR ''0'' \<and> list_all is_digit cs"
proof (induction n rule: dec_nat.induct)
  case (1 n)
  show ?case
  proof (cases "n < 10")
    case True
    with 1(2) digit_nth [of n] digit_nth_nonzero [of n] show ?thesis
      by (simp add: dec_nat_small)
  next
    case False
    then have "0 < n div 10" by simp
    with 1(1) False obtain c cs where
      c: "dec_nat (n div 10) = c # cs" "is_digit c" "c \<noteq> CHR ''0''" "list_all is_digit cs"
      by auto
    have "is_digit (''0123456789'' ! (n mod 10))" by (rule digit_nth) simp
    with c False show ?thesis by (simp add: dec_nat_large)
  qed
qed

lemma dropWhile_digits:
  "list_all is_digit ds \<Longrightarrow> \<not> is_digit c \<Longrightarrow> dropWhile is_digit (ds @ c # rest) = c # rest"
  by (induction ds) auto

lemma dec_nat_head: "\<exists>c cs. dec_nat n = c # cs \<and> is_digit c \<and> list_all is_digit cs"
proof (cases "n = 0")
  case True
  have "dec_nat 0 = ''0''" by (simp add: dec_nat_small)
  with True show ?thesis by (simp add: is_digit_def)
next
  case False
  with dec_nat_leading [of n] show ?thesis by auto
qed

lemma scan_int_dec_nat:
  "scan_int (dec_nat n @ CHR ''}'' # rest) = Some (CHR ''}'' # rest)"
proof (cases "n = 0")
  case True
  have "dec_nat 0 = ''0''" by (simp add: dec_nat_small)
  with True show ?thesis
    by (simp add: scan_int_def scan_frac_def scan_exp_def)
next
  case False
  then obtain c cs where
    "dec_nat n = c # cs" "is_digit c" "c \<noteq> CHR ''0''" "list_all is_digit cs"
    using dec_nat_leading [of n] by auto
  then show ?thesis
    by (simp add: scan_int_def scan_frac_def scan_exp_def dropWhile_digits is_digit_def)
qed

lemma scan_number_Sprintf_d:
  "scan_number (Sprintf_d d @ CHR ''}'' # rest) = Some (CHR ''}'' # rest)"
proof (cases "d < 0")
  case True
  then show ?thesis
    by (simp add: Sprintf_d_def scan_number_def scan_int_dec_nat)
next
  case False
  obtain c cs where c: "dec_nat (nat d) = c # cs" "is_digit c"
    using dec_nat_head [of "nat d"] by auto
  then have "c \<noteq> CHR ''-''" by (auto simp: is_digit_def)
  with False c scan_int_dec_nat [of "nat d" rest] show ?thesis
    by (simp add: Sprintf_d_def scan_number_def)
qed

lemma Sprintf_d_head:
  "\<exists>c cs. Sprintf_d d = c # cs \<and> (c = CHR ''-'' \<or> is_digit c)"
  using dec_nat_head [of "nat d"] by (auto simp: Sprintf_d_def)

lemma rune_size_bounds: "rune_size s = Some n \<Longrightarrow> 0 < n \<and> n \<le> 4 \<and> n \<le> length s"
  by (auto simp: rune_size_def split: list.splits if_splits)

lemma rune_size_append: "rune_size s = Some n \<Longrightarrow> rune_size (s @ t) = Some n"
  by (auto simp: rune_size_def split: list.splits if_splits)

lemma rune_size_take: "rune_size (take 4 s) = rune_size s"
  by (auto simp: rune_size_def split: list.splits)

lemma rune_size_ascii: "(of_char b :: nat) < 128 \<Longrightarrow> rune_size (b # bs) = Some 1"
  by (simp add: rune_size_def)

lemma rune_size_wide:
  "\<not> (of_char b :: nat) < 128 \<Longrightarrow> rune_size (b # bs) = Some n \<Longrightarrow> 2 \<le> n"
  by (auto simp: rune_size_def split: list.splits if_splits)

lemma DecodeRuneInString_valid:
  assumes "rune_size s = Some n"
  shows "DecodeRuneInString s = (rune_value (take n s), n)"
    and "DecodeRuneInString (take 4 s) = (rune_value (take n s), n)"
proof -
  from rune_size_bounds [OF assms] have n: "0 < n" "n \<le> 4" "n \<le> length s" by simp_all
  then have ne: "s \<noteq> []" by auto
  with assms show "DecodeRuneInString s = (rune_value (take n s), n)"
    by (simp add: DecodeRuneInString_def)
  from n have "take n (take 4 s) = take n s" by (simp add: min_def)
  with assms ne show "DecodeRuneInString (take 4 s) = (rune_value (take n s), n)"
    by (simp add: DecodeRuneInString_def rune_size_take)
qed

lemma list_all_drop: "list_all P xs \<Longrightarrow> list_all P (drop n xs)"
  by (auto simp: list_all_iff dest: in_set_dropD)

lemma scan_string_raw:
  "utf8_valid a \<Longrightarrow> list_all (\<lambda>c. \<not> needs_escape c) a
     \<Longrightarrow> scan_string (a @ CHR 0x22 # rest) = Some rest"
proof (induction a rule: utf8_valid.induct)
  case 1
  show ?case by simp
next
  case (2 b bs)
  from 2(2) obtain n where n: "rune_size (b # bs) = Some n" "utf8_valid (drop n (b # bs))"
    by (auto split: option.splits)
  from rune_size_bounds [OF n(1)] have le: "n \<le> length (b # bs)" by simp
  from 2(3) have b: "b \<noteq> CHR 0x22" "b \<noteq> CHR 0x5C" "\<not> (of_char b :: nat) < 32"
    by (simp_all add: needs_escape_def)
  from 2(3) have "list_all (\<lambda>c. \<not> needs_escape c) (drop n (b # bs))"
    by (rule list_all_drop)
  with 2(1) n have IH: "scan_string (drop n (b # bs) @ CHR 0x22 # rest) = Some rest"
    by simp
  have size: "rune_size (b # bs @ CHR 0x22 # rest) = Some n"
    using rune_size_append [OF n(1), of "CHR 0x22 # rest"] by simp
  from le have "drop n (b # bs @ CHR 0x22 # rest) = drop n (b # bs) @ CHR 0x22 # rest"
    using drop_append [of n "b # bs" "CHR 0x22 # rest"] by simp
  with IH have "scan_string (drop n (b # bs @ CHR 0x22 # rest)) = Some rest"
    by simp
  with b size show ?case
    by (simp del: drop_Suc_Cons)
qed

lemma appendString_copies:
  "utf8_valid a \<Longrightarrow> list_all (\<lambda>c. \<not> needs_escape c \<and> \<not> html_char c) a
     \<Longrightarrow> list_all (\<lambda>r. \<not> line_separator r) (runes a) \<Longrightarrow> appendString a = a"
proof (induction a rule: utf8_valid.induct)
  case 1
  show ?case by simp
next
  case (2 b bs)
  from 2(2) obtain n where n: "rune_size (b # bs) = Some n" "utf8_valid (drop n (b # bs))"
    by (auto split: option.splits)
  note dec = DecodeRuneInString_valid [OF n(1)]
  from 2(4) dec(1) have sep: "\<not> line_separator (rune_value (take n (b # bs)))"
    and rest: "list_all (\<lambda>r. \<not> line_separator r) (runes (drop n (b # bs)))"
    by simp_all
  from 2(3) have "list_all (\<lambda>c. \<not> needs_escape c \<and> \<not> html_char c) (drop n (b # bs))"
    by (rule list_all_drop)
  with 2(1) n rest have IH: "appendString (drop n (b # bs)) = drop n (b # bs)"
    by simp
  show ?case
  proof (cases "(of_char b :: nat) < 128")
    case True
    with n(1) have "n = 1" by (simp add: rune_size_ascii)
    with IH have tl: "appendString bs = bs" by simp
    from 2(3) True have "htmlSafe b"
      by (simp add: htmlSafe_def needs_escape_def html_char_def)
    with True tl show ?thesis by simp
  next
    case False
    from rune_size_wide [OF False n(1)] have "n \<noteq> 1" by simp
    with False dec(2) sep IH have
      "appendString (b # bs) = take n (b # bs) @ drop n (b # bs)"
      by (simp add: line_separator_def del: drop_Suc_Cons take_Suc_Cons)
    then show ?thesis by (simp only: append_take_drop_id)
  qed
qed

lemma at_least_five: "5 \<le> (n::nat) \<Longrightarrow> \<exists>k. n = Suc (Suc (Suc (Suc (Suc k))))"
  by (rule exI [of _ "n - 5"]) simp

lemma skip_ws_simps:
  "skip_ws [] = []"
  "skip_ws (c # cs) = (if is_ws c then skip_ws cs else c # cs)"
  by (simp_all add: skip_ws_def)

lemma json_valid_speed_body:
  assumes "utf8_valid a" and "list_all (\<lambda>c. \<not> needs_escape c) a"
  shows "json_valid (speed_body a d)"
proof -
  have "5 \<le> length (speed_body a d)" by (simp add: speed_body_def)
  then obtain k where k: "length (speed_body a d) = Suc (Suc (Suc (Suc (Suc k))))"
    using at_least_five by blast
  obtain c cs where c: "Sprintf_d d = c # cs" "c = CHR ''-'' \<or> is_digit c"
    using Sprintf_d_head [of d] by auto
  from c(2) have neq: "c \<noteq> CHR 0x22" "c \<noteq> CHR ''[''" "c \<noteq> CHR ''{''" "c \<noteq> CHR ''t''"
    "c \<noteq> CHR ''f''" "c \<noteq> CHR ''n''" "c \<noteq> CHR 0x20" "c \<noteq> CHR 0x09" "c \<noteq> CHR 0x0A"
    "c \<noteq> CHR 0x0D"
    by (auto simp: is_digit_def)
  have sn: "scan_number (c # cs @ ''}'') = Some ''}''"
    using scan_number_Sprintf_d [of d "[]"] c(1) by simp
  show ?thesis
    unfolding json_valid_def k
    by (simp add: speed_body_def c(1) skip_ws_simps is_ws_def scan_string_raw [OF assms]
        rune_size_def neq sn)
qed

lemma json_valid_address_body:
  assumes "utf8_valid a" and "list_all (\<lambda>c. \<not> needs_escape c) a"
  shows "json_valid (address_body a)"
proof -
  have "5 \<le> length (address_body a)" by (simp add: address_body_def)
  then obtain k where k: "length (address_body a) = Suc (Suc (Suc (Suc (Suc k))))"
    using at_least_five by blast
  show ?thesis
    unfolding json_valid_def k
    by (simp add: address_body_def skip_ws_simps is_ws_def scan_string_raw [OF assms]
        rune_size_def)
qed

text \<open>
  C10, as the code has it. The bodies of the per-address requests are the raw address
  between fixed texts. When the address is valid UTF-8 and no byte of it needs escaping
  in a JSON string (no double quote, no backslash, no byte below 0x20), the body is
  well-formed JSON. When moreover it holds none of \<open><\<close>, \<open>>\<close>, \<open>&\<close>, U+2028 and U+2029,
  which \<open>json.Marshal\<close> escapes, the body is the one built with \<open>toJSON\<close> of the
  one-address list.
\<close>

theorem raw_address_bodies:
  "(utf8_valid a \<and> list_all (\<lambda>c. \<not> needs_escape c) a \<longrightarrow>
      json_valid (speed_body a d) \<and> json_valid (address_body a)) \<and>
   (utf8_valid a \<and> list_all (\<lambda>c. \<not> needs_escape c \<and> \<not> html_char c) a \<and>
    list_all (\<lambda>r. \<not> line_separator r) (runes a) \<longrightarrow>
      speed_body a d = speed_body_toJSON [a] d \<and>
      address_body a = address_body_toJSON [a])"
proof (intro conjI impI; elim conjE)
  assume "utf8_valid a" and "list_all (\<lambda>c. \<not> needs_escape c) a"
  then show "json_valid (speed_body a d)" and "json_valid (address_body a)"
    by (rule json_valid_speed_body, rule json_valid_address_body)
next
  assume "utf8_valid a" and "list_all (\<lambda>c. \<not> needs_escape c \<and> \<not> html_char c) a"
    and "list_all (\<lambda>r. \<not> line_separator r) (runes a)"
  then have "appendString a = a" by (rule appendString_copies)
  then show "speed_body a d = speed_body_toJSON [a] d"
    and "address_body a = address_body_toJSON [a]"
    by (simp_all add: speed_body_def address_body_def speed_body_toJSON_def
        address_body_toJSON_def toJSON_def)
qed

theorem raw_address_bodies_witness:
  \<open>json_valid (speed_body ''aleo1a'' 900) \<and> json_valid (address_body ''aleo1a'') \<and>
   speed_body ''aleo1a'' 900 = speed_body_toJSON [''aleo1a''] 900 \<and>
   address_body ''aleo1a'' = address_body_toJSON [''aleo1a''] \<and>
   address_body ''aleo1a'' = ''{"address":["aleo1a"]}'' \<and>
   json_valid (address_body [CHR ''a'', CHR 0xC3, CHR 0xA9]) \<and>
   address_body [CHR ''a'', CHR 0xC3, CHR 0xA9]
     = address_body_toJSON [[CHR ''a'', CHR 0xC3, CHR 0xA9]]\<close>
proof -
  have h1: "utf8_valid ''aleo1a''"
    by (simp add: rune_size_def)
  have h2: "list_all (\<lambda>c. \<not> needs_escape c \<and> \<not> html_char c) ''aleo1a''"
    by (simp add: needs_escape_def html_char_def)
  have h3: "list_all (\<lambda>r. \<not> line_separator r) (runes ''aleo1a'')"
    by (simp add: DecodeRuneInString_def rune_size_def rune_value_def line_separator_def)
  have h4: \<open>address_body ''aleo1a'' = ''{"address":["aleo1a"]}''\<close>
    by (simp add: address_body_def)
  have g1: "utf8_valid [CHR ''a'', CHR 0xC3, CHR 0xA9]"
    by (simp add: rune_size_def tail_byte_def)
  have g2: "list_all (\<lambda>c. \<not> needs_escape c \<and> \<not> html_char c) [CHR ''a'', CHR 0xC3, CHR 0xA9]"
    by (simp add: needs_escape_def html_char_def)
  have g3: "list_all (\<lambda>r. \<not> line_separator r) (runes [CHR ''a'', CHR 0xC3, CHR 0xA9])"
    by (simp add: DecodeRuneInString_def rune_size_def tail_byte_def rune_value_def
        line_separator_def)
  from h2 have h2': "list_all (\<lambda>c. \<not> needs_escape c) ''aleo1a''"
    by (simp add: list_all_iff)
  from g2 have g2': "list_all (\<lambda>c. \<not> needs_escape c) [CHR ''a'', CHR 0xC3, CHR 0xA9]"
    by (simp add: list_all_iff)
  from raw_address_bodies [of "''aleo1a''" 900] h1 h2 h2' h3 h4
    raw_address_bodies [of "[CHR ''a'', CHR 0xC3, CHR 0xA9]" 0] g1 g2 g2' g3
  show ?thesis
    by blast
qed

text \<open>
  C10 as stated fails in both directions, and in its last part. An address with double
  quotes in it can give a well-formed body, of another array: \<open>a","b\<close> gives
  \<open>{"address":["a","b"]}\<close>. An address none of whose bytes needs escaping can give a
  body that is not a JSON text: the one byte 0xFF is not UTF-8. And an address that
  needs no escaping and gives a well-formed body can give one that \<open>toJSON\<close> would not
  produce: \<open>json.Marshal\<close> writes \<open><\<close> as the escape \<open>\u003c\<close>, and U+2028 (the
  bytes 0xE2 0x80 0xA8) as the escape \<open>\u2028\<close>.
\<close>

theorem raw_address_bodies_counterexample:
  \<open>list_ex needs_escape ''a","b'' \<and>
   address_body ''a","b'' = ''{"address":["a","b"]}'' \<and>
   json_valid (address_body ''a","b'') \<and>
   list_all (\<lambda>c. \<not> needs_escape c) [CHR 0xFF] \<and>
   \<not> json_valid (address_body [CHR 0xFF]) \<and>
   list_all (\<lambda>c. \<not> needs_escape c) ''a<b'' \<and>
   json_valid (address_body ''a<b'') \<and>
   address_body ''a<b'' = ''{"address":["a<b"]}'' \<and>
   address_body_toJSON [''a<b''] = ''{"address":["a'' @ [CHR 0x5C] @ ''u003cb"]}'' \<and>
   address_body ''a<b'' \<noteq> address_body_toJSON [''a<b''] \<and>
   list_all (\<lambda>c. \<not> needs_escape c) [CHR 0xE2, CHR 0x80, CHR 0xA8] \<and>
   json_valid (address_body [CHR 0xE2, CHR 0x80, CHR 0xA8]) \<and>
   address_body_toJSON [[CHR 0xE2, CHR 0x80, CHR 0xA8]]
     = ''{"address":["'' @ [CHR 0x5C] @ ''u2028"]}'' \<and>
   address_body [CHR 0xE2, CHR 0x80, CHR 0xA8]
     \<noteq> address_body_toJSON [[CHR 0xE2, CHR 0x80, CHR 0xA8]]\<close>
proof (intro conjI)
  show \<open>list_ex needs_escape ''a","b''\<close>
    by (simp add: needs_escape_def)
  show \<open>address_body ''a","b'' = ''{"address":["a","b"]}''\<close>
    by (simp add: address_body_def)
  show \<open>json_valid (address_body ''a","b'')\<close>
    by (simp add: address_body_def json_valid_def skip_ws_simps is_ws_def rune_size_def)
  show "list_all (\<lambda>c. \<not> needs_escape c) [CHR 0xFF]"
    by (simp add: needs_escape_def)
  show "\<not> json_valid (address_body [CHR 0xFF])"
    by (simp add: address_body_def json_valid_def skip_ws_simps is_ws_def rune_size_def)
  show "list_all (\<lambda>c. \<not> needs_escape c) ''a<b''"
    by (simp add: needs_escape_def)
  show "json_valid (address_body ''a<b'')"
    by (simp add: address_body_def json_valid_def skip_ws_simps is_ws_def rune_size_def)
  show a: \<open>address_body ''a<b'' = ''{"address":["a<b"]}''\<close>
    by (simp add: address_body_def)
  show b: \<open>address_body_toJSON [''a<b''] = ''{"address":["a'' @ [CHR 0x5C] @ ''u003cb"]}''\<close>
    by (simp add: address_body_toJSON_def toJSON_def htmlSafe_def escape_def hex_def)
  show "address_body ''a<b'' \<noteq> address_body_toJSON [''a<b'']"
    unfolding a b by simp
  show "list_all (\<lambda>c. \<not> needs_escape c) [CHR 0xE2, CHR 0x80, CHR 0xA8]"
    by (simp add: needs_escape_def)
  show "json_valid (address_body [CHR 0xE2, CHR 0x80, CHR 0xA8])"
    by (simp add: address_body_def json_valid_def skip_ws_simps is_ws_def rune_size_def
        second_byte_def tail_byte_def)
  show c: \<open>address_body_toJSON [[CHR 0xE2, CHR 0x80, CHR 0xA8]]
     = ''{"address":["'' @ [CHR 0x5C] @ ''u2028"]}''\<close>
    by (simp add: address_body_toJSON_def toJSON_def DecodeRuneInString_def rune_size_def
        second_byte_def tail_byte_def rune_value_def hex_def)
  show "address_body [CHR 0xE2, CHR 0x80, CHR 0xA8]
     \<noteq> address_body_toJSON [[CHR 0xE2, CHR 0x80, CHR 0xA8]]"
    unfolding c by (simp add: address_body_def)
qed

end
